theory Spec2Isabelle
  imports Complex_Main "HOL-Library.AList"
begin

section \<open>JavaScript values\<close>

text \<open>
  Numbers are modelled as exact rationals; \<open>NaN\<close> is kept apart because the
  feature extractor can produce it (\<open>parseFloat\<close> of an empty style value) and every
  comparison with it is false.  Binary floating-point rounding is not modelled.
\<close>

datatype jsnum = NaN | Num rat

fun num_lt :: "jsnum \<Rightarrow> rat \<Rightarrow> bool" where
  "num_lt NaN c = False"
| "num_lt (Num x) c = (x < c)"

fun num_gt :: "jsnum \<Rightarrow> rat \<Rightarrow> bool" where
  "num_gt NaN c = False"
| "num_gt (Num x) c = (x > c)"

text \<open>\<open>x || 0\<close> on a number: \<open>NaN\<close> and \<open>0\<close> are falsy.\<close>

fun num_or_zero :: "jsnum \<Rightarrow> rat" where
  "num_or_zero NaN = 0"
| "num_or_zero (Num x) = x"

text \<open>Values that a configuration object may hold, and JavaScript truthiness.\<close>

datatype jsval =
    JUndefined
  | JNull
  | JBool bool
  | JNum rat
  | JStr string
  | JList "string list"

fun truthy :: "jsval \<Rightarrow> bool" where
  "truthy JUndefined = False"
| "truthy JNull = False"
| "truthy (JBool b) = b"
| "truthy (JNum n) = (n \<noteq> 0)"
| "truthy (JStr s) = (s \<noteq> [])"
| "truthy (JList _) = True"

text \<open>Reading a property of an object: a missing key reads as \<open>undefined\<close>.\<close>

definition get_prop :: "(string \<rightharpoonup> jsval) \<Rightarrow> string \<Rightarrow> jsval" where
  "get_prop obj k = (case obj k of None \<Rightarrow> JUndefined | Some v \<Rightarrow> v)"

text \<open>
  A JavaScript \<open>Set\<close> keeps its members in insertion order without duplicates;
  \<open>[...new Set(xs)]\<close> is the list of first occurrences.
\<close>

definition set_add :: "'a list \<Rightarrow> 'a \<Rightarrow> 'a list" where
  "set_add s x = (if x \<in> set s then s else s @ [x])"

definition new_Set :: "'a list \<Rightarrow> 'a list" where
  "new_Set xs = foldl set_add [] xs"

section \<open>Strings and regular expressions\<close>

text \<open>
  Text is a list of code units below 256.  Case mapping is the ASCII one: every literal
  in the patterns of this program is ASCII, so no test can tell the difference on the
  remaining code units.
\<close>

definition toLowerCase_char :: "char \<Rightarrow> char" where
  "toLowerCase_char c =
     (case map_of (zip ''ABCDEFGHIJKLMNOPQRSTUVWXYZ'' ''abcdefghijklmnopqrstuvwxyz'') c of
        Some d \<Rightarrow> d | None \<Rightarrow> c)"

definition toUpperCase_char :: "char \<Rightarrow> char" where
  "toUpperCase_char c =
     (case map_of (zip ''abcdefghijklmnopqrstuvwxyz'' ''ABCDEFGHIJKLMNOPQRSTUVWXYZ'') c of
        Some d \<Rightarrow> d | None \<Rightarrow> c)"

definition toLowerCase :: "string \<Rightarrow> string" where
  "toLowerCase s = map toLowerCase_char s"

definition isDigit :: "char \<Rightarrow> bool" where
  "isDigit c = (c \<in> set ''0123456789'')"

text \<open>The class \<open>\s\<close>: tab, line feed, vertical tab, form feed, carriage return, space, no-break space.\<close>

definition isSpace :: "char \<Rightarrow> bool" where
  "isSpace c = (c \<in> set [CHR 0x09, CHR 0x0A, CHR 0x0B, CHR 0x0C, CHR 0x0D, CHR 0x20, CHR 0xA0])"

definition isLineTerminator :: "char \<Rightarrow> bool" where
  "isLineTerminator c = (c = CHR 0x0A \<or> c = CHR 0x0D)"

definition trim :: "string \<Rightarrow> string" where
  "trim s = rev (dropWhile isSpace (rev (dropWhile isSpace s)))"

fun startsWith :: "string \<Rightarrow> string \<Rightarrow> bool" where
  "startsWith s [] = True"
| "startsWith [] (p # ps) = False"
| "startsWith (c # cs) (p # ps) = (c = p \<and> startsWith cs ps)"

fun str_includes :: "string \<Rightarrow> string \<Rightarrow> bool" where
  "str_includes [] p = startsWith [] p"
| "str_includes (c # cs) p = (startsWith (c # cs) p \<or> str_includes cs p)"

text \<open>
  The regular expressions of the program use literals, \<open>\d\<close>, \<open>\s\<close>, \<open>.\<close>,
  grouping, alternation, \<open>?\<close>, \<open>+\<close> and \<open>*\<close> only.  \<open>Zero\<close> (no string at all)
  is not JavaScript syntax; the matcher needs it for its intermediate states.
\<close>

datatype regex =
    Zero
  | Eps
  | Chr char
  | Digit
  | Space
  | Dot
  | Seq regex regex
  | Alt regex regex
  | Star regex

definition Rep1 :: "regex \<Rightarrow> regex" where
  "Rep1 r = Seq r (Star r)"

definition Opt :: "regex \<Rightarrow> regex" where
  "Opt r = Alt r Eps"

fun lit :: "string \<Rightarrow> regex" where
  "lit [] = Eps"
| "lit [c] = Chr c"
| "lit (c # cs) = Seq (Chr c) (lit cs)"

fun seqs :: "regex list \<Rightarrow> regex" where
  "seqs [] = Eps"
| "seqs [r] = r"
| "seqs (r # rs) = Seq r (seqs rs)"

fun alts :: "regex list \<Rightarrow> regex" where
  "alts [] = Zero"
| "alts [r] = r"
| "alts (r # rs) = Alt r (alts rs)"

text \<open>\<open>\s+\<close>, \<open>\s*\<close>, \<open>\d+\<close>, \<open>.*\<close> and the apostrophe.\<close>

definition ws :: regex where "ws = Rep1 Space"
definition ws0 :: regex where "ws0 = Star Space"
definition digits :: regex where "digits = Rep1 Digit"
definition anything :: regex where "anything = Star Dot"
definition apos :: char where "apos = CHR 0x27"

text \<open>A literal matches a code unit exactly, or up to case under the flag \<open>i\<close>.\<close>

definition chr_eq :: "bool \<Rightarrow> char \<Rightarrow> char \<Rightarrow> bool" where
  "chr_eq icase p c = (if icase then toUpperCase_char p = toUpperCase_char c else p = c)"

fun nullable :: "regex \<Rightarrow> bool" where
  "nullable Zero = False"
| "nullable Eps = True"
| "nullable (Chr _) = False"
| "nullable Digit = False"
| "nullable Space = False"
| "nullable Dot = False"
| "nullable (Seq r s) = (nullable r \<and> nullable s)"
| "nullable (Alt r s) = (nullable r \<or> nullable s)"
| "nullable (Star _) = True"

fun seq :: "regex \<Rightarrow> regex \<Rightarrow> regex" where
  "seq Zero _ = Zero"
| "seq _ Zero = Zero"
| "seq Eps s = s"
| "seq r s = Seq r s"

fun alt :: "regex \<Rightarrow> regex \<Rightarrow> regex" where
  "alt Zero s = s"
| "alt r Zero = r"
| "alt r s = Alt r s"

text \<open>The expression that matches what is left after reading the code unit \<open>c\<close>.\<close>

fun deriv_re :: "bool \<Rightarrow> char \<Rightarrow> regex \<Rightarrow> regex" where
  "deriv_re i c Zero = Zero"
| "deriv_re i c Eps = Zero"
| "deriv_re i c (Chr p) = (if chr_eq i p c then Eps else Zero)"
| "deriv_re i c Digit = (if isDigit c then Eps else Zero)"
| "deriv_re i c Space = (if isSpace c then Eps else Zero)"
| "deriv_re i c Dot = (if isLineTerminator c then Zero else Eps)"
| "deriv_re i c (Seq r s) =
     (if nullable r then alt (seq (deriv_re i c r) s) (deriv_re i c s)
      else seq (deriv_re i c r) s)"
| "deriv_re i c (Alt r s) = alt (deriv_re i c r) (deriv_re i c s)"
| "deriv_re i c (Star r) = seq (deriv_re i c r) (Star r)"

text \<open>Some prefix of the string matches; the attempt is given up once nothing can match.\<close>

fun matchPrefix :: "bool \<Rightarrow> regex \<Rightarrow> string \<Rightarrow> bool" where
  "matchPrefix i Zero s = False"
| "matchPrefix i r [] = nullable r"
| "matchPrefix i r (c # cs) = (nullable r \<or> matchPrefix i (deriv_re i c r) cs)"

text \<open>Some substring matches: every start index is tried in turn.\<close>

fun search :: "bool \<Rightarrow> regex \<Rightarrow> string \<Rightarrow> bool" where
  "search i r [] = nullable r"
| "search i r (c # cs) = (matchPrefix i r (c # cs) \<or> search i r cs)"

text \<open>A \<open>RegExp\<close> object: its source and its \<open>i\<close> flag.  None of them has the \<open>g\<close> flag, so \<open>test\<close> keeps no state.\<close>

datatype regexp = RegExp regex bool

fun test :: "regexp \<Rightarrow> string \<Rightarrow> bool" where
  "test (RegExp r icase) s = search icase r s"

text \<open>The declarative meaning of an expression, against which the matcher is checked.\<close>

inductive matches :: "bool \<Rightarrow> regex \<Rightarrow> string \<Rightarrow> bool" where
  m_eps: "matches i Eps []"
| m_chr: "chr_eq i p c \<Longrightarrow> matches i (Chr p) [c]"
| m_digit: "isDigit c \<Longrightarrow> matches i Digit [c]"
| m_space: "isSpace c \<Longrightarrow> matches i Space [c]"
| m_dot: "\<not> isLineTerminator c \<Longrightarrow> matches i Dot [c]"
| m_seq: "matches i r u \<Longrightarrow> matches i s v \<Longrightarrow> matches i (Seq r s) (u @ v)"
| m_altl: "matches i r u \<Longrightarrow> matches i (Alt r s) u"
| m_altr: "matches i s u \<Longrightarrow> matches i (Alt r s) u"
| m_star0: "matches i (Star r) []"
| m_star: "matches i r u \<Longrightarrow> matches i (Star r) v \<Longrightarrow> matches i (Star r) (u @ v)"

section \<open>The element under analysis\<close>

text \<open>
  The detector reads a DOM element through a fixed set of properties and queries.
  The record holds what those reads return for an HTML element attached to a document;
  the document itself, the rendering and the selector engine are not modelled.
  Computed style values are stored as the numbers that \<open>parseFloat\<close> and \<open>parseInt\<close>
  read from them (\<open>NaN\<close> when there is no number, as for \<open>z-index: auto\<close>).
\<close>

text \<open>
  The selectors the program passes to \<open>querySelector\<close>:
  \<^item> \<open>SelTimer\<close>: \<^verbatim>\<open>[class*="timer"], [class*="countdown"]\<close>
  \<^item> \<open>SelFee\<close>: \<^verbatim>\<open>[class*="fee"], [class*="charge"]\<close>
  \<^item> \<open>SelCheckbox\<close>: \<^verbatim>\<open>input[type="checkbox"]\<close>
  \<^item> \<open>SelForm\<close>: \<^verbatim>\<open>form\<close>
  \<^item> \<open>SelFormControl\<close>: \<^verbatim>\<open>input, select, textarea\<close>
\<close>

datatype selector = SelTimer | SelFee | SelCheckbox | SelForm | SelFormControl

record computed_style =
  css_opacity :: jsnum
  css_fontSize :: jsnum
  css_color :: string
  css_backgroundColor :: string
  css_zIndex :: jsnum
  css_position :: string

record element =
  textContent :: "string option"
  tagName :: string
  className :: string
  inputType :: string
  checked :: bool
  attributes :: "string list"
  firstLabelText :: "string option"
  href :: "string option"
  computedStyle :: computed_style
  style_cursor :: string
  style_pointerEvents :: string
  selectorHits :: "selector list"
  choiceInputs :: "(bool \<times> bool) list"
  ancestorClassNames :: "string list"

text \<open>
  \<open>selectorHits\<close> lists the selectors for which \<open>element.querySelector\<close> finds an
  element rather than \<open>null\<close>.  \<open>choiceInputs\<close> lists, for every checkbox or radio input below
  the element, its \<open>checked\<close> property and whether it has the \<open>checked\<close> attribute.
  \<open>firstLabelText\<close> is \<open>element.labels?.[0]?.textContent\<close>, \<open>ancestorClassNames\<close>
  the class names along the \<open>parentElement\<close> chain, nearest first.
\<close>

definition querySelector :: "element \<Rightarrow> selector \<Rightarrow> bool" where
  "querySelector e sel = (sel \<in> set (selectorHits e))"

definition hasAttribute :: "element \<Rightarrow> string \<Rightarrow> bool" where
  "hasAttribute e a = (a \<in> set (attributes e))"

text \<open>\<open>element.textContent || ''\<close>\<close>

definition text_of :: "element \<Rightarrow> string" where
  "text_of e = (case textContent e of None \<Rightarrow> [] | Some t \<Rightarrow> t)"

text \<open>\<open>element.textContent?.toLowerCase() || ''\<close>\<close>

definition lower_text_of :: "element \<Rightarrow> string" where
  "lower_text_of e = (case textContent e of None \<Rightarrow> [] | Some t \<Rightarrow> toLowerCase t)"

section \<open>Heuristic detector (aiDetector.js)\<close>

text \<open>
  The feature set, restricted to the fields that \<open>makePredictions\<close> reads.  The source
  also extracts \<open>length\<close>, \<open>hasManipulativeLanguage\<close>, \<open>readabilityScore\<close>,
  \<open>hasPercentageClaims\<close>, \<open>fontSize\<close>, the colours, \<open>hasAnimation\<close>,
  \<open>hasHiddenInputs\<close>, \<open>hasRedirection\<close>, \<open>hasExitIntent\<close>,
  \<open>proximityToImportantAction\<close> and \<open>pageContext\<close>; no decision depends on them.
\<close>

record text_features =
  t_hasNegativeLanguage :: bool
  t_hasUrgentLanguage :: bool
  t_sentimentScore :: rat
  t_hasNumberClaims :: bool

record visual_features =
  v_opacity :: jsnum
  v_isOverlay :: bool
  v_contrastRatio :: jsnum

record behavioral_features =
  b_isInteractive :: bool
  b_isForm :: bool
  b_hasPreselection :: bool
  b_hasTimeConstraint :: bool
  b_blocksUserAction :: bool

record contextual_features =
  c_isInModal :: bool
  c_isInPopup :: bool
  c_appearsOnLoad :: bool

record features =
  f_text :: text_features
  f_visual :: visual_features
  f_behavioral :: behavioral_features
  f_contextual :: contextual_features

record aiDetector =
  suspicionThreshold :: rat

definition AIDetector_new :: aiDetector where
  "AIDetector_new = \<lparr> suspicionThreshold = 0.6 \<rparr>"

definition setSuspicionThreshold :: "rat \<Rightarrow> aiDetector \<Rightarrow> aiDetector" where
  "setSuspicionThreshold threshold d = d\<lparr> suspicionThreshold := max 0 (min 1 threshold) \<rparr>"

subsection \<open>Text features\<close>

definition negativePatterns :: "regexp list" where
  "negativePatterns =
     [ RegExp (seqs [lit ''no'', ws, lit ''thanks'']) True,
       RegExp (seqs [lit ''don'', Opt (Chr apos), lit ''t'', ws, lit ''want'']) True,
       RegExp (seqs [lit ''i'', ws, lit ''hate'']) True,
       RegExp (seqs [lit ''not'', ws, lit ''interested'']) True,
       RegExp (lit ''decline'') True,
       RegExp (lit ''refuse'') True ]"

definition hasNegativeLanguage :: "string \<Rightarrow> bool" where
  "hasNegativeLanguage txt = list_ex (\<lambda>pattern. test pattern txt) negativePatterns"

definition urgentPatterns :: "regexp list" where
  "urgentPatterns =
     [ RegExp (lit ''now'') True,
       RegExp (lit ''today'') True,
       RegExp (lit ''hurry'') True,
       RegExp (lit ''quick'') True,
       RegExp (lit ''limited'') True,
       RegExp (seqs [lit ''expire'', Opt (Chr CHR ''s'')]) True,
       RegExp (lit ''ending'') True,
       RegExp (seqs [lit ''last'', ws, lit ''chance'']) True,
       RegExp (seqs [lit ''act'', ws, lit ''fast'']) True ]"

definition hasUrgentLanguage :: "string \<Rightarrow> bool" where
  "hasUrgentLanguage txt = list_ex (\<lambda>pattern. test pattern txt) urgentPatterns"

definition sentimentPatterns :: "regexp list" where
  "sentimentPatterns =
     [ RegExp (seqs [lit ''don'', Opt (Chr apos), lit ''t miss'']) True,
       RegExp (lit ''lose out'') True,
       RegExp (lit ''regret'') True,
       RegExp (lit ''mistake'') True,
       RegExp (lit ''foolish'') True,
       RegExp (lit ''stupid'') True,
       RegExp (lit ''hate'') True ]"

text \<open>Each pattern found takes 0.2 off a score that starts at 0; the result is clamped to [-1, 1].\<close>

definition calculateSentiment :: "string \<Rightarrow> rat" where
  "calculateSentiment txt =
     (let score = foldl (\<lambda>score pattern. if test pattern txt then score - 0.2 else score)
                        0 sentimentPatterns
      in max (- 1) (min 1 score))"

definition extractTextFeatures :: "element \<Rightarrow> text_features" where
  "extractTextFeatures e =
     (let txt = text_of e;
          normalizedText = trim (toLowerCase txt)
      in \<lparr> t_hasNegativeLanguage = hasNegativeLanguage normalizedText,
           t_hasUrgentLanguage = hasUrgentLanguage normalizedText,
           t_sentimentScore = calculateSentiment normalizedText,
           t_hasNumberClaims = test (RegExp digits False) normalizedText \<rparr>)"

subsection \<open>Visual features\<close>

definition isOverlay :: "element \<Rightarrow> computed_style \<Rightarrow> bool" where
  "isOverlay e styles =
     (let position = css_position styles;
          zIndex = num_or_zero (css_zIndex styles)
      in (position = ''fixed'' \<or> position = ''absolute'') \<and> zIndex > 1000)"

text \<open>\<open>color.match(/\d+/g)\<close>: the maximal runs of digits, left to right; \<open>None\<close> when there is none.\<close>

fun digit_runs :: "string \<Rightarrow> string \<Rightarrow> string list" where
  "digit_runs cur [] = (if cur = [] then [] else [cur])"
| "digit_runs cur (c # cs) =
     (if isDigit c then digit_runs (cur @ [c]) cs
      else if cur = [] then digit_runs [] cs
      else cur # digit_runs [] cs)"

definition match_digits :: "string \<Rightarrow> string list option" where
  "match_digits s = (case digit_runs [] s of [] \<Rightarrow> None | r # rs \<Rightarrow> Some (r # rs))"

definition digit_value :: "char \<Rightarrow> nat" where
  "digit_value c = of_char c - 48"

text \<open>\<open>parseInt\<close> of a run of digits; of \<open>undefined\<close> (a missing array entry) it is \<open>NaN\<close>.\<close>

definition parseInt_at :: "string list \<Rightarrow> nat \<Rightarrow> jsnum" where
  "parseInt_at rgb k =
     (if k < length rgb
      then Num (of_nat (foldl (\<lambda>n c. 10 * n + digit_value c) 0 (rgb ! k)))
      else NaN)"

definition getBrightness :: "string \<Rightarrow> jsnum" where
  "getBrightness color =
     (case match_digits color of
        None \<Rightarrow> Num 128
      | Some rgb \<Rightarrow>
          (case (parseInt_at rgb 0, parseInt_at rgb 1, parseInt_at rgb 2) of
             (Num r, Num g, Num b) \<Rightarrow> Num ((r * 299 + g * 587 + b * 114) / 1000)
           | _ \<Rightarrow> NaN))"

definition calculateContrastRatio :: "computed_style \<Rightarrow> jsnum" where
  "calculateContrastRatio styles =
     (let bgBrightness = getBrightness (css_backgroundColor styles);
          fgBrightness = getBrightness (css_color styles)
      in case (bgBrightness, fgBrightness) of
           (Num bg, Num fg) \<Rightarrow>
             (let lighter = max bg fg; darker = min bg fg
              in Num ((lighter + 0.05) / (darker + 0.05)))
         | _ \<Rightarrow> NaN)"

definition extractVisualFeatures :: "element \<Rightarrow> visual_features" where
  "extractVisualFeatures e =
     (let styles = computedStyle e
      in \<lparr> v_opacity = css_opacity styles,
           v_isOverlay = isOverlay e styles,
           v_contrastRatio = calculateContrastRatio styles \<rparr>)"

subsection \<open>Behavioural features\<close>

definition isInteractive :: "element \<Rightarrow> bool" where
  "isInteractive e =
     (tagName e \<in> set [''BUTTON'', ''A'', ''INPUT'', ''SELECT'', ''TEXTAREA'']
      \<or> hasAttribute e ''onclick''
      \<or> style_cursor e = ''pointer'')"

definition isForm :: "element \<Rightarrow> bool" where
  "isForm e =
     (tagName e = ''FORM'' \<or> querySelector e SelForm \<or> querySelector e SelFormControl)"

definition hasPreselection :: "element \<Rightarrow> bool" where
  "hasPreselection e =
     list_ex (\<lambda>(input_checked, input_hasAttribute). input_checked \<or> input_hasAttribute)
             (choiceInputs e)"

definition hasTimeConstraint :: "element \<Rightarrow> bool" where
  "hasTimeConstraint e =
     (let txt = lower_text_of e
      in test (RegExp (seqs [digits, lit '':'', digits]) False) txt \<or> querySelector e SelTimer)"

definition blocksUserAction :: "element \<Rightarrow> bool" where
  "blocksUserAction e =
     (let styles = computedStyle e
      in (css_position styles = ''fixed'' \<or> css_position styles = ''absolute'')
         \<and> style_pointerEvents e \<noteq> ''none''
         \<and> num_gt (css_zIndex styles) 100)"

definition extractBehavioralFeatures :: "element \<Rightarrow> behavioral_features" where
  "extractBehavioralFeatures e =
     \<lparr> b_isInteractive = isInteractive e,
       b_isForm = isForm e,
       b_hasPreselection = hasPreselection e,
       b_hasTimeConstraint = hasTimeConstraint e,
       b_blocksUserAction = blocksUserAction e \<rparr>"

subsection \<open>Contextual features\<close>

text \<open>The walks up the \<open>parentElement\<close> chain, as loops over the ancestors' class names.\<close>

fun isInModal_loop :: "string list \<Rightarrow> bool" where
  "isInModal_loop [] = False"
| "isInModal_loop (parentClass # rest) =
     (let classes = toLowerCase parentClass
      in if str_includes classes ''modal'' \<or> str_includes classes ''dialog'' then True
         else isInModal_loop rest)"

definition isInModal :: "element \<Rightarrow> bool" where
  "isInModal e = isInModal_loop (ancestorClassNames e)"

fun isInPopup_loop :: "string list \<Rightarrow> bool" where
  "isInPopup_loop [] = False"
| "isInPopup_loop (parentClass # rest) =
     (let classes = toLowerCase parentClass
      in if str_includes classes ''popup'' \<or> str_includes classes ''overlay'' then True
         else isInPopup_loop rest)"

definition isInPopup :: "element \<Rightarrow> bool" where
  "isInPopup e = isInPopup_loop (ancestorClassNames e)"

definition extractContextualFeatures :: "element \<Rightarrow> contextual_features" where
  "extractContextualFeatures e =
     \<lparr> c_isInModal = isInModal e,
       c_isInPopup = isInPopup e,
       c_appearsOnLoad = hasAttribute e ''data-onload'' \<rparr>"

definition extractFeatures :: "element \<Rightarrow> features" where
  "extractFeatures e =
     \<lparr> f_text = extractTextFeatures e,
       f_visual = extractVisualFeatures e,
       f_behavioral = extractBehavioralFeatures e,
       f_contextual = extractContextualFeatures e \<rparr>"

subsection \<open>Scoring\<close>

text \<open>
  The three arrays \<open>scores\<close>, \<open>patterns\<close> and \<open>reasoning\<close> that \<open>makePredictions\<close>
  fills; \<open>push3\<close> is the body shared by its nine \<open>if\<close> statements.
\<close>

type_synonym prediction_acc = "rat list \<times> string list \<times> string list"

definition push3 :: "bool \<Rightarrow> rat \<Rightarrow> string \<Rightarrow> string \<Rightarrow> prediction_acc \<Rightarrow> prediction_acc" where
  "push3 cond score pattern reason acc =
     (case acc of (scores, patterns, reasoning) \<Rightarrow>
        if cond then (scores @ [score], patterns @ [pattern], reasoning @ [reason])
        else acc)"

definition collectPredictions :: "features \<Rightarrow> prediction_acc" where
  "collectPredictions f =
     (let txt = f_text f; visual = f_visual f;
          behavioral = f_behavioral f; contextual = f_contextual f;
          acc = ([], [], []);
          acc = push3 (t_hasNegativeLanguage txt \<and> t_sentimentScore txt < - 0.3)
                  0.8 ''manipulative-language''
                  ''Uses negative/guilt-inducing language'' acc;
          acc = push3 (t_hasUrgentLanguage txt \<and> t_hasNumberClaims txt)
                  0.7 ''false-urgency''
                  ''Creates false sense of urgency with specific numbers'' acc;
          acc = push3 (num_lt (v_opacity visual) 0.5 \<and> b_isInteractive behavioral)
                  0.85 ''visual-obstruction''
                  ''Important interactive element has low visibility'' acc;
          acc = push3 (num_lt (v_contrastRatio visual) 3 \<and> b_isInteractive behavioral)
                  0.75 ''low-contrast-deception''
                  ''Low contrast used to hide important options'' acc;
          acc = push3 (v_isOverlay visual \<and> c_isInModal contextual)
                  0.65 ''forced-interaction''
                  ''Overlay forces user interaction'' acc;
          acc = push3 (b_hasPreselection behavioral \<and> b_isForm behavioral)
                  0.8 ''sneaky-preselection''
                  ''Form has pre-selected options that benefit the company'' acc;
          acc = push3 (b_blocksUserAction behavioral)
                  0.9 ''forced-continuity''
                  ''Element blocks user from completing desired action'' acc;
          acc = push3 (b_hasTimeConstraint behavioral \<and> t_hasUrgentLanguage txt)
                  0.85 ''pressure-tactics''
                  ''Combines time pressure with urgent language'' acc;
          acc = push3 (c_isInPopup contextual \<and> c_appearsOnLoad contextual)
                  0.6 ''intrusive-popup''
                  ''Popup appears immediately on page load'' acc
      in acc)"

record predictions =
  p_confidence :: rat
  p_patterns :: "string list"
  p_reasoning :: "string list"

definition makePredictions :: "features \<Rightarrow> predictions" where
  "makePredictions f =
     (case collectPredictions f of (scores, patterns, reasoning) \<Rightarrow>
        let confidence =
              (if length scores > 0
               then foldl (\<lambda>a b. a + b) 0 scores / of_nat (length scores)
               else 0)
        in \<lparr> p_confidence = confidence,
             p_patterns = new_Set patterns,
             p_reasoning = reasoning \<rparr>)"

record ai_result =
  isDarkPattern :: bool
  ai_confidence :: rat
  detectedPatterns :: "string list"
  ai_features :: features
  reasoning :: "string list"

definition detect :: "aiDetector \<Rightarrow> element \<Rightarrow> ai_result" where
  "detect this e =
     (let feats = extractFeatures e;
          preds = makePredictions feats
      in \<lparr> isDarkPattern = (p_confidence preds \<ge> suspicionThreshold this),
           ai_confidence = p_confidence preds,
           detectedPatterns = p_patterns preds,
           ai_features = feats,
           reasoning = p_reasoning preds \<rparr>)"

section \<open>Rule database (darkPatternRules.js)\<close>

datatype severity = High | Medium | Low

text \<open>A value thrown by a structural predicate.\<close>

datatype error = Error string

text \<open>
  A rule.  \<open>checkElement\<close> is optional, and a predicate added at run time may throw:
  its result is the thrown value (\<open>Inl\<close>) or the truthiness of what it returns (\<open>Inr\<close>).
\<close>

record rule =
  rule_id :: string
  rule_category :: string
  rule_name :: string
  rule_severity :: severity
  rule_patterns :: "regexp list"
  rule_checkElement :: "(element \<Rightarrow> error + bool) option"

record rules_db =
  categories :: "(string \<times> string) list"
  rules :: "rule list"

definition isButtonOrLink :: "element \<Rightarrow> bool" where
  "isButtonOrLink e = (tagName e = ''BUTTON'' \<or> tagName e = ''A'')"

definition check_urgency_countdown :: "element \<Rightarrow> bool" where
  "check_urgency_countdown e =
     (let txt = lower_text_of e;
          hasTimer = querySelector e SelTimer;
          hasUrgentText =
            test (RegExp (alts [lit ''only'', lit ''hurry'', lit ''limited'', lit ''expires'']) True) txt
      in hasTimer \<and> hasUrgentText)"

definition rule_urgency_countdown :: rule where
  "rule_urgency_countdown =
     \<lparr> rule_id = ''urgency-countdown'',
       rule_category = ''URGENCY'',
       rule_name = ''Fake Urgency Timer'',
       rule_severity = High,
       rule_patterns =
         [ RegExp (seqs [lit ''only'', ws, digits, ws, alts [lit ''left'', lit ''remaining'']]) True,
           RegExp (alts [lit ''hurry'', seqs [lit ''act'', ws, lit ''now''],
                         seqs [lit ''limited'', ws, lit ''time'']]) True,
           RegExp (seqs [lit ''expire'', Opt (Chr CHR ''s''), ws, alts [lit ''in'', lit ''within'']]) True,
           RegExp (seqs [digits, lit '':'', digits, lit '':'', digits]) False,
           RegExp (seqs [lit ''sale'', ws, lit ''ends'', ws, alts [lit ''soon'', lit ''today'']]) True ],
       rule_checkElement = Some (\<lambda>e. Inr (check_urgency_countdown e)) \<rparr>"

definition check_scarcity_stock :: "element \<Rightarrow> bool" where
  "check_scarcity_stock e =
     (let txt = lower_text_of e
      in test (RegExp (seqs [lit ''only'', ws, digits, ws,
                             alts [lit ''left'', lit ''remaining'', seqs [lit ''in'', ws, lit ''stock'']]])
                      True) txt)"

definition rule_scarcity_stock :: rule where
  "rule_scarcity_stock =
     \<lparr> rule_id = ''scarcity-stock'',
       rule_category = ''URGENCY'',
       rule_name = ''Fake Scarcity'',
       rule_severity = High,
       rule_patterns =
         [ RegExp (seqs [lit ''only'', ws, digits, ws, lit ''left'', ws, lit ''in'', ws, lit ''stock'']) True,
           RegExp (seqs [digits, ws, lit ''people'', ws, alts [lit ''viewing'', lit ''watching'']]) True,
           RegExp (seqs [lit ''almost'', ws, lit ''gone'']) True,
           RegExp (seqs [lit ''selling'', ws, lit ''fast'']) True ],
       rule_checkElement = Some (\<lambda>e. Inr (check_scarcity_stock e)) \<rparr>"

definition check_confirmshaming :: "element \<Rightarrow> bool" where
  "check_confirmshaming e =
     (let txt = lower_text_of e;
          isButton = isButtonOrLink e;
          hasShaming =
            test (RegExp (seqs [lit ''no'', Opt (Chr CHR '',''), ws, lit ''i'', ws,
                                alts [seqs [lit ''don'', Opt (Chr apos), lit ''t''],
                                      lit ''hate'', lit ''prefer'']])
                         True) txt
      in isButton \<and> hasShaming)"

definition rule_confirmshaming :: rule where
  "rule_confirmshaming =
     \<lparr> rule_id = ''confirmshaming'',
       rule_category = ''CONFIRMSHAMING'',
       rule_name = ''Confirmshaming'',
       rule_severity = Medium,
       rule_patterns =
         [ RegExp (seqs [lit ''no'', Opt (Chr CHR '',''), ws, lit ''i'', ws,
                         lit ''don'', Opt (Chr apos), lit ''t'', ws, lit ''want'']) True,
           RegExp (seqs [lit ''no'', ws, lit ''thanks'', Opt (Chr CHR '',''), ws, lit ''i'', ws,
                         alts [lit ''prefer'', lit ''like''], ws, lit ''to'']) True,
           RegExp (seqs [lit ''i'', ws, lit ''hate'', ws,
                         alts [lit ''money'', lit ''savings'', lit ''deals'']]) True,
           RegExp (seqs [lit ''no'', Opt (Chr CHR '',''), ws, lit ''i'', Opt (Chr apos), lit ''ll'', ws,
                         lit ''pay'', ws, alts [lit ''full'', lit ''more'']]) True,
           RegExp (seqs [lit ''i'', ws, lit ''don'', Opt (Chr apos), lit ''t'', ws, lit ''want'', ws,
                         lit ''to'', ws, alts [lit ''save'', lit ''win'']]) True ],
       rule_checkElement = Some (\<lambda>e. Inr (check_confirmshaming e)) \<rparr>"

definition check_forced_continuity :: "element \<Rightarrow> bool" where
  "check_forced_continuity e =
     (let txt = lower_text_of e
      in test (RegExp (seqs [lit ''free'', anything, lit ''trial'']) True) txt
         \<and> test (RegExp (alts [lit ''card'', lit ''billing'', lit ''charge'']) True) txt)"

definition rule_forced_continuity :: rule where
  "rule_forced_continuity =
     \<lparr> rule_id = ''forced-continuity'',
       rule_category = ''SNEAKING'',
       rule_name = ''Forced Continuity'',
       rule_severity = High,
       rule_patterns =
         [ RegExp (seqs [lit ''free'', ws, lit ''trial'', anything,
                         lit ''automatically'', ws, lit ''charged'']) True,
           RegExp (seqs [lit ''cancel'', ws, lit ''anytime'', anything,
                         lit ''billing'', ws, lit ''starts'']) True,
           RegExp (seqs [lit ''trial'', anything, lit ''card'', ws, lit ''required'']) True ],
       rule_checkElement = Some (\<lambda>e. Inr (check_forced_continuity e)) \<rparr>"

text \<open>
  \<open>styles.fontSize === '10px'\<close> is read on the parsed size; wherever it holds, the
  \<open>parseFloat\<close> comparison beside it holds as well.
\<close>

definition check_hidden_costs :: "element \<Rightarrow> bool" where
  "check_hidden_costs e =
     (let hasHiddenFees = querySelector e SelFee;
          styles = computedStyle e;
          isHidden = (css_fontSize styles = Num 10 \<or> num_lt (css_fontSize styles) 12)
      in hasHiddenFees \<and> isHidden)"

definition rule_hidden_costs :: rule where
  "rule_hidden_costs =
     \<lparr> rule_id = ''hidden-costs'',
       rule_category = ''HIDDEN_COSTS'',
       rule_name = ''Hidden Costs'',
       rule_severity = High,
       rule_patterns =
         [ RegExp (seqs [lit ''+'', ws0, lit ''fee'', Opt (Chr CHR ''s'')]) True,
           RegExp (seqs [lit ''additional'', ws, lit ''charges'']) True,
           RegExp (seqs [lit ''taxe'', Opt (Chr CHR ''s''), ws, lit ''and'', ws, lit ''fees'']) True,
           RegExp (seqs [lit ''handling'', ws, lit ''fee'']) True ],
       rule_checkElement = Some (\<lambda>e. Inr (check_hidden_costs e)) \<rparr>"

definition check_preselection :: "element \<Rightarrow> bool" where
  "check_preselection e =
     (if tagName e = ''INPUT'' \<and> (inputType e = ''checkbox'' \<or> inputType e = ''radio'')
      then
        (let isChecked = (checked e \<or> hasAttribute e ''checked'');
             label = (case firstLabelText e of None \<Rightarrow> [] | Some t \<Rightarrow> toLowerCase t);
             isNegative =
               test (RegExp (alts [lit ''newsletter'', lit ''marketing'', lit ''promotional'',
                                   seqs [lit ''third'', Dot, lit ''party''],
                                   seqs [lit ''share'', anything, alts [lit ''data'', lit ''info'']]])
                            True) label
         in isChecked \<and> isNegative)
      else False)"

definition rule_preselection :: rule where
  "rule_preselection =
     \<lparr> rule_id = ''preselection'',
       rule_category = ''SNEAKING'',
       rule_name = ''Preselected Options'',
       rule_severity = Medium,
       rule_patterns = [],
       rule_checkElement = Some (\<lambda>e. Inr (check_preselection e)) \<rparr>"

definition check_disguised_ads :: "element \<Rightarrow> bool" where
  "check_disguised_ads e =
     (let isButton = isButtonOrLink e;
          txt = lower_text_of e;
          hasAdClass = str_includes (toLowerCase (className e)) ''ad'';
          hasSuspiciousText =
            test (RegExp (alts [lit ''download'', lit ''continue'', lit ''next'']) True) txt
      in isButton \<and> \<not> hasAdClass \<and> hasSuspiciousText
         \<and> (case href e of None \<Rightarrow> False | Some h \<Rightarrow> str_includes h ''ad''))"

definition rule_disguised_ads :: rule where
  "rule_disguised_ads =
     \<lparr> rule_id = ''disguised-ads'',
       rule_category = ''MISDIRECTION'',
       rule_name = ''Disguised Ads'',
       rule_severity = Medium,
       rule_patterns =
         [ RegExp (lit ''download'') True,
           RegExp (lit ''continue'') True,
           RegExp (lit ''next'') True ],
       rule_checkElement = Some (\<lambda>e. Inr (check_disguised_ads e)) \<rparr>"

definition check_trick_question :: "element \<Rightarrow> bool" where
  "check_trick_question e =
     (let txt = lower_text_of e;
          hasNegation =
            test (RegExp (alts [seqs [lit ''don'', Opt (Chr apos), lit ''t''], lit ''no'', lit ''not'',
                                lit ''never'', lit ''unsubscribe'']) True) txt;
          hasCheckbox = querySelector e SelCheckbox
      in hasNegation \<and> hasCheckbox)"

definition rule_trick_question :: rule where
  "rule_trick_question =
     \<lparr> rule_id = ''trick-question'',
       rule_category = ''MISDIRECTION'',
       rule_name = ''Trick Questions'',
       rule_severity = High,
       rule_patterns =
         [ RegExp (seqs [lit ''don'', Opt (Chr apos), lit ''t'', ws, lit ''send'']) True,
           RegExp (seqs [lit ''unsubscribe'', anything, lit ''no'']) True,
           RegExp (seqs [lit ''opt'', Opt Dot, lit ''out'', anything, lit ''unchecked'']) True ],
       rule_checkElement = Some (\<lambda>e. Inr (check_trick_question e)) \<rparr>"

definition check_roach_motel :: "element \<Rightarrow> bool" where
  "check_roach_motel e =
     (let txt = lower_text_of e;
          isCancellation =
            test (RegExp (alts [lit ''cancel'', lit ''unsubscribe'',
                                seqs [lit ''delete'', anything, lit ''account'']]) True) txt;
          requiresContact =
            test (RegExp (alts [lit ''contact'', lit ''call'', lit ''email'', lit ''phone'']) True) txt
      in isCancellation \<and> requiresContact)"

definition rule_roach_motel :: rule where
  "rule_roach_motel =
     \<lparr> rule_id = ''roach-motel'',
       rule_category = ''OBSTRUCTION'',
       rule_name = ''Roach Motel'',
       rule_severity = High,
       rule_patterns =
         [ RegExp (seqs [lit ''contact'', anything, lit ''cancel'']) True,
           RegExp (seqs [lit ''call'', anything, lit ''cancel'']) True,
           RegExp (seqs [lit ''email'', anything, lit ''cancel'']) True ],
       rule_checkElement = Some (\<lambda>e. Inr (check_roach_motel e)) \<rparr>"

text \<open>
  \<open>styles.opacity < 0.5\<close> compares the style value as a number; for the numeric value
  that a computed opacity always is, this is the comparison on the parsed number.
\<close>

definition check_hard_to_cancel :: "element \<Rightarrow> bool" where
  "check_hard_to_cancel e =
     (let txt = lower_text_of e;
          isCancelLink =
            test (RegExp (alts [lit ''cancel'', seqs [lit ''close'', anything, lit ''account''],
                                lit ''unsubscribe'']) True) txt
      in if isCancelLink \<and> (tagName e = ''A'' \<or> tagName e = ''BUTTON'')
         then
           (let styles = computedStyle e;
                isHidden = (num_lt (css_opacity styles) 0.5 \<or> css_fontSize styles = Num 10
                            \<or> num_lt (css_fontSize styles) 11)
            in isHidden)
         else False)"

definition rule_hard_to_cancel :: rule where
  "rule_hard_to_cancel =
     \<lparr> rule_id = ''hard-to-cancel'',
       rule_category = ''OBSTRUCTION'',
       rule_name = ''Hard to Cancel'',
       rule_severity = High,
       rule_patterns = [],
       rule_checkElement = Some (\<lambda>e. Inr (check_hard_to_cancel e)) \<rparr>"

definition check_fake_social_proof :: "element \<Rightarrow> bool" where
  "check_fake_social_proof e =
     (let txt = lower_text_of e
      in test (RegExp (seqs [digits, ws, alts [lit ''people'', lit ''users''], anything,
                             alts [lit ''bought'', lit ''viewing'', lit ''joined'']]) True) txt)"

definition rule_fake_social_proof :: rule where
  "rule_fake_social_proof =
     \<lparr> rule_id = ''fake-social-proof'',
       rule_category = ''SOCIAL_PROOF'',
       rule_name = ''Fake Social Proof'',
       rule_severity = Medium,
       rule_patterns =
         [ RegExp (seqs [digits, ws, alts [lit ''people'', lit ''users'', lit ''customers''], ws,
                         alts [lit ''bought'', lit ''purchased'', lit ''viewing'']]) True,
           RegExp (seqs [lit ''join'', ws, digits, ws, alts [lit ''million'', lit ''thousand'']]) True,
           RegExp (seqs [lit ''trending'', ws, lit ''now'']) True,
           RegExp (seqs [lit ''#1'', ws, lit ''best'', Opt Dot, lit ''seller'']) True ],
       rule_checkElement = Some (\<lambda>e. Inr (check_fake_social_proof e)) \<rparr>"

definition check_visual_prominence :: "element \<Rightarrow> bool" where
  "check_visual_prominence e =
     (if tagName e = ''BUTTON'' \<or> tagName e = ''A''
      then
        (let styles = computedStyle e;
             txt = lower_text_of e;
             isAccept =
               test (RegExp (alts [lit ''accept'', lit ''agree'', lit ''yes'', lit ''continue'',
                                   lit ''subscribe'']) True) txt;
             isDecline =
               test (RegExp (alts [lit ''decline'', lit ''no'', lit ''skip'', lit ''cancel'']) True) txt
         in if isDecline
            then
              (let isLowContrast = num_lt (css_opacity styles) 0.6;
                   isSmall = num_lt (css_fontSize styles) 14
               in isLowContrast \<or> isSmall)
            else False)
      else False)"

definition rule_visual_prominence :: rule where
  "rule_visual_prominence =
     \<lparr> rule_id = ''visual-prominence'',
       rule_category = ''VISUAL_INTERFERENCE'',
       rule_name = ''Visual Prominence Imbalance'',
       rule_severity = Low,
       rule_patterns = [],
       rule_checkElement = Some (\<lambda>e. Inr (check_visual_prominence e)) \<rparr>"

definition check_forced_enrollment :: "element \<Rightarrow> bool" where
  "check_forced_enrollment e =
     (let txt = lower_text_of e;
          hasForced =
            test (RegExp (alts [seqs [lit ''create'', anything, lit ''account''],
                                seqs [lit ''sign'', anything, lit ''up''],
                                lit ''register'']) True) txt;
          hasRequired =
            test (RegExp (alts [lit ''required'', lit ''must'', lit ''continue'', lit ''view'']) True) txt
      in hasForced \<and> hasRequired)"

definition rule_forced_enrollment :: rule where
  "rule_forced_enrollment =
     \<lparr> rule_id = ''forced-enrollment'',
       rule_category = ''FORCED_ACTION'',
       rule_name = ''Forced Account Creation'',
       rule_severity = Medium,
       rule_patterns =
         [ RegExp (seqs [lit ''create'', anything, lit ''account'', anything, lit ''continue'']) True,
           RegExp (seqs [lit ''sign'', anything, lit ''up'', anything, lit ''to'', anything,
                         lit ''view'']) True,
           RegExp (seqs [lit ''register'', anything, lit ''required'']) True ],
       rule_checkElement = Some (\<lambda>e. Inr (check_forced_enrollment e)) \<rparr>"

definition DarkPatternRules :: rules_db where
  "DarkPatternRules =
     \<lparr> categories =
         [ (''URGENCY'', ''Urgency & Scarcity''),
           (''MISDIRECTION'', ''Misdirection''),
           (''SNEAKING'', ''Sneaking''),
           (''OBSTRUCTION'', ''Obstruction''),
           (''FORCED_ACTION'', ''Forced Action''),
           (''SOCIAL_PROOF'', ''Social Proof''),
           (''VISUAL_INTERFERENCE'', ''Visual Interference''),
           (''CONFIRMSHAMING'', ''Confirmshaming''),
           (''BAIT_AND_SWITCH'', ''Bait and Switch''),
           (''HIDDEN_COSTS'', ''Hidden Costs'') ],
       rules =
         [ rule_urgency_countdown,
           rule_scarcity_stock,
           rule_confirmshaming,
           rule_forced_continuity,
           rule_hidden_costs,
           rule_preselection,
           rule_disguised_ads,
           rule_trick_question,
           rule_roach_motel,
           rule_hard_to_cancel,
           rule_fake_social_proof,
           rule_visual_prominence,
           rule_forced_enrollment ] \<rparr>"

section \<open>Detection engine (darkPatternDetector.js)\<close>

record rule_match =
  ruleId :: string
  ruleName :: string
  category :: string
  severity :: severity
  confidence :: rat

text \<open>
  The fused result for a detected element.  The \<open>elementInfo\<close> snapshot (tag, text
  excerpt, locators, bounding box, visibility) is presentational and left out.
\<close>

record detection =
  det_element :: element
  ruleMatches :: "rule_match list"
  aiDetection :: "ai_result option"
  det_confidence :: rat
  det_severity :: severity
  recommendations :: "string list"

text \<open>\<open>analyzeElement\<close> returns either \<open>{ detected: false }\<close> or the full object with \<open>detected: true\<close>.\<close>

datatype result = NotDetected | Detected detection

fun detected :: "result \<Rightarrow> bool" where
  "detected NotDetected = False"
| "detected (Detected _) = True"



record detector =
  the_aiDetector :: aiDetector
  the_rules :: rules_db
  detectionResults :: "detection list"
  config :: "string \<rightharpoonup> jsval"

definition DarkPatternDetector_new :: detector where
  "DarkPatternDetector_new =
     \<lparr> the_aiDetector = AIDetector_new,
       the_rules = DarkPatternRules,
       detectionResults = [],
       config = map_of
         [ (''enableRuleBased'', JBool True),
           (''enableAIBased'', JBool True),
           (''minConfidence'', JNum 0.5),
           (''scanDepth'', JStr ''full''),
           (''excludeSelectors'', JList [''.dark-pattern-badge'']) ] \<rparr>"

text \<open>The console: the warnings logged so far, each with the rule id and the error.\<close>

type_synonym console = "(string \<times> error) list"

subsection \<open>Rule evaluation\<close>

text \<open>
  One pass of the loop body of \<open>applyRules\<close>: the text patterns first; the structural
  predicate only when no pattern matched, inside \<open>try\<close>; the \<open>catch\<close> branch logs
  and leaves \<open>isMatch\<close> as it was.
\<close>

definition checkRule :: "rule \<Rightarrow> element \<Rightarrow> bool \<times> console" where
  "checkRule rule e =
     (let txt = text_of e;
          isMatch = list_ex (\<lambda>pattern. test pattern txt) (rule_patterns rule)
      in if \<not> isMatch
         then (case rule_checkElement rule of
                 None \<Rightarrow> (isMatch, [])
               | Some check \<Rightarrow>
                   (case check e of
                      Inr b \<Rightarrow> (b, [])
                    | Inl err \<Rightarrow> (isMatch, [(rule_id rule, err)])))
         else (isMatch, []))"

definition match_of :: "rule \<Rightarrow> rule_match" where
  "match_of rule =
     \<lparr> ruleId = rule_id rule,
       ruleName = rule_name rule,
       category = rule_category rule,
       severity = rule_severity rule,
       confidence = 0.9 \<rparr>"

fun applyRules_loop :: "rule list \<Rightarrow> element \<Rightarrow> rule_match list \<times> console \<Rightarrow> rule_match list \<times> console" where
  "applyRules_loop [] e acc = acc"
| "applyRules_loop (rule # rest) e (found, con) =
     (case checkRule rule e of
        (isMatch, warnings) \<Rightarrow>
          applyRules_loop rest e
            (if isMatch then found @ [match_of rule] else found, con @ warnings))"

definition applyRules :: "detector \<Rightarrow> element \<Rightarrow> console \<Rightarrow> rule_match list \<times> console" where
  "applyRules this e con = applyRules_loop (rules (the_rules this)) e ([], con)"

subsection \<open>Fusion\<close>

definition ai_positive :: "ai_result option \<Rightarrow> bool" where
  "ai_positive aiResult = (case aiResult of None \<Rightarrow> False | Some a \<Rightarrow> isDarkPattern a)"

definition calculateOverallConfidence :: "rule_match list \<Rightarrow> ai_result option \<Rightarrow> rat" where
  "calculateOverallConfidence ruleResults aiResult =
     (let conf = 0; count = (0::nat);
          (conf, count) =
            (if length ruleResults > 0
             then (let ruleConfidence =
                         foldl (\<lambda>sum r. sum + confidence r) 0 ruleResults
                           / of_nat (length ruleResults)
                   in (conf + ruleConfidence * 0.6, count + 1))
             else (conf, count));
          (conf, count) =
            (case aiResult of
               Some a \<Rightarrow>
                 if isDarkPattern a then (conf + ai_confidence a * 0.4, count + 1)
                 else (conf, count)
             | None \<Rightarrow> (conf, count))
      in if count > 0 then conf else 0)"

definition determineSeverity :: "rule_match list \<Rightarrow> ai_result option \<Rightarrow> severity" where
  "determineSeverity ruleResults aiResult =
     (let severities = map severity ruleResults
      in if High \<in> set severities then High
         else if Medium \<in> set severities then Medium
         else if Low \<in> set severities then Low
         else (case aiResult of
                 Some a \<Rightarrow>
                   if isDarkPattern a
                   then (if ai_confidence a > 0.8 then High
                         else if ai_confidence a > 0.6 then Medium
                         else Low)
                   else Low
               | None \<Rightarrow> Low))"

definition generateRecommendations :: "rule_match list \<Rightarrow> ai_result option \<Rightarrow> string list" where
  "generateRecommendations ruleResults aiResult =
     (let cats = foldl (\<lambda>s r. set_add s (category r)) [] ruleResults;
          recs = [];
          recs = (if ''URGENCY'' \<in> set cats
                  then recs @ [''Remove or verify artificial urgency claims'',
                               ''Ensure scarcity claims are accurate and not misleading'']
                  else recs);
          recs = (if ''CONFIRMSHAMING'' \<in> set cats
                  then recs @ [''Use neutral language for decline options'',
                               ''Respect user choice without guilt-inducing language'']
                  else recs);
          recs = (if ''SNEAKING'' \<in> set cats
                  then recs @ [''Make all costs and terms transparent upfront'',
                               ''Remove pre-selected options that benefit the company'']
                  else recs);
          recs = (if ''OBSTRUCTION'' \<in> set cats
                  then recs @ [''Make cancellation as easy as subscription'',
                               ''Provide clear, accessible exit options'']
                  else recs);
          recs = (if ''VISUAL_INTERFERENCE'' \<in> set cats
                  then recs @ [''Ensure equal visual prominence for all options'',
                               ''Maintain adequate contrast and readability'']
                  else recs);
          recs = (case aiResult of
                    Some a \<Rightarrow> recs @ map (\<lambda>reason. ''AI detected: '' @ reason) (reasoning a)
                  | None \<Rightarrow> recs)
      in new_Set recs)"

subsection \<open>Per-element analysis\<close>

definition analyzeElement :: "detector \<Rightarrow> element \<Rightarrow> console \<Rightarrow> result \<times> console" where
  "analyzeElement this e con =
     (case (if truthy (get_prop (config this) ''enableRuleBased'')
            then applyRules this e con else ([], con)) of
        (ruleResults, con') \<Rightarrow>
          let aiResult = (if truthy (get_prop (config this) ''enableAIBased'')
                          then Some (detect (the_aiDetector this) e) else None);
              is_detected = (length ruleResults > 0 \<or> ai_positive aiResult)
          in if \<not> is_detected then (NotDetected, con')
             else (Detected
                     \<lparr> det_element = e,
                       ruleMatches = ruleResults,
                       aiDetection = aiResult,
                       det_confidence = calculateOverallConfidence ruleResults aiResult,
                       det_severity = determineSeverity ruleResults aiResult,
                       recommendations = generateRecommendations ruleResults aiResult \<rparr>,
                   con'))"

subsection \<open>Summary and scan\<close>

record severity_counts =
  count_high :: nat
  count_medium :: nat
  count_low :: nat

text \<open>\<open>summary.bySeverity[result.severity]++\<close>\<close>

fun increment :: "severity \<Rightarrow> severity_counts \<Rightarrow> severity_counts" where
  "increment High c = c\<lparr> count_high := count_high c + 1 \<rparr>"
| "increment Medium c = c\<lparr> count_medium := count_medium c + 1 \<rparr>"
| "increment Low c = c\<lparr> count_low := count_low c + 1 \<rparr>"

text \<open>
  \<open>byCategory\<close> is an object used as a dictionary; its entries are kept in insertion
  order, which is the order \<open>Object.entries\<close> lists keys that are not array indices.
  \<open>byCategory[category] = (byCategory[category] || 0) + 1\<close>:
\<close>

definition count_category :: "(string \<times> nat) list \<Rightarrow> string \<Rightarrow> (string \<times> nat) list" where
  "count_category byCat cat =
     AList.update cat ((case map_of byCat cat of None \<Rightarrow> 0 | Some n \<Rightarrow> n) + 1) byCat"

record top_issue =
  ti_category :: string
  ti_count :: nat
  ti_categoryName :: string

record summary =
  totalDetections :: nat
  bySeverity :: severity_counts
  byCategory :: "(string \<times> nat) list"
  topIssues :: "top_issue list"

text \<open>\<open>this.rules.categories[category] || category\<close>: a missing or empty name falls back to the key.\<close>

definition categoryName_of :: "rules_db \<Rightarrow> string \<Rightarrow> string" where
  "categoryName_of db cat =
     (case map_of (categories db) cat of
        None \<Rightarrow> cat
      | Some n \<Rightarrow> if n \<noteq> [] then n else cat)"

definition count_detection :: "severity_counts \<times> (string \<times> nat) list \<Rightarrow> detection \<Rightarrow> severity_counts \<times> (string \<times> nat) list" where
  "count_detection acc res =
     (case acc of (sev, byCat) \<Rightarrow>
        (increment (det_severity res) sev,
         foldl (\<lambda>byCat m. count_category byCat (category m)) byCat (ruleMatches res)))"

text \<open>The comparator \<open>(a, b) => b[1] - a[1]\<close> sorts by count, largest first; the sort is stable.\<close>

definition generateSummary :: "detector \<Rightarrow> summary" where
  "generateSummary this =
     (case foldl count_detection
             (\<lparr> count_high = 0, count_medium = 0, count_low = 0 \<rparr>, [])
             (detectionResults this) of
        (sev, byCat) \<Rightarrow>
          let categoryEntries = take 5 (sort_key (\<lambda>(cat, n). - int n) byCat)
          in \<lparr> totalDetections = length (detectionResults this),
               bySeverity = sev,
               byCategory = byCat,
               topIssues =
                 map (\<lambda>(cat, n). \<lparr> ti_category = cat, ti_count = n,
                                   ti_categoryName = categoryName_of (the_rules this) cat \<rparr>)
                     categoryEntries \<rparr>)"

text \<open>
  The loop of \<open>scanPage\<close> over the candidate elements.  Which elements are candidates
  is decided by selector queries on the document and is a parameter here; the timestamp
  and the elapsed time of the report are left out.
\<close>

fun scan_loop :: "element list \<Rightarrow> detector \<times> console \<Rightarrow> detector \<times> console" where
  "scan_loop [] st = st"
| "scan_loop (e # rest) (this, con) =
     (case analyzeElement this e con of
        (NotDetected, con') \<Rightarrow> scan_loop rest (this, con')
      | (Detected d, con') \<Rightarrow>
          scan_loop rest (this\<lparr> detectionResults := detectionResults this @ [d] \<rparr>, con'))"

record report =
  totalElements :: nat
  detections :: "detection list"
  rep_summary :: summary

definition scanPage :: "detector \<Rightarrow> element list \<Rightarrow> console \<Rightarrow> report \<times> detector \<times> console" where
  "scanPage this allElements con =
     (case scan_loop allElements (this\<lparr> detectionResults := [] \<rparr>, con) of
        (this', con') \<Rightarrow>
          (\<lparr> totalElements = length allElements,
             detections = detectionResults this',
             rep_summary = generateSummary this' \<rparr>,
           this', con'))"

subsection \<open>Configuration\<close>

text \<open>\<open>this.config = { ...this.config, ...newConfig }\<close>\<close>

definition setConfig :: "(string \<rightharpoonup> jsval) \<Rightarrow> detector \<Rightarrow> detector" where
  "setConfig newConfig this = this\<lparr> config := config this ++ newConfig \<rparr>"

section \<open>Notions used in the statements\<close>

text \<open>
  The definitions of this section are not part of the program.  They name what the
  statements below talk about, in the words of the specification.
\<close>

text \<open>The arithmetic mean.\<close>

definition mean :: "rat list \<Rightarrow> rat" where
  "mean xs = sum_list xs / of_nat (length xs)"

text \<open>
  The nine \<open>if\<close> statements of \<open>makePredictions\<close> read as a table, in source order:
  condition, score, pattern name, reason.
\<close>

record condition =
  cond_holds :: "features \<Rightarrow> bool"
  cond_score :: rat
  cond_pattern :: string
  cond_reason :: string

definition conditionTable :: "condition list" where
  "conditionTable =
     [ \<lparr> cond_holds = (\<lambda>f. t_hasNegativeLanguage (f_text f) \<and> t_sentimentScore (f_text f) < - 0.3),
         cond_score = 0.8, cond_pattern = ''manipulative-language'',
         cond_reason = ''Uses negative/guilt-inducing language'' \<rparr>,
       \<lparr> cond_holds = (\<lambda>f. t_hasUrgentLanguage (f_text f) \<and> t_hasNumberClaims (f_text f)),
         cond_score = 0.7, cond_pattern = ''false-urgency'',
         cond_reason = ''Creates false sense of urgency with specific numbers'' \<rparr>,
       \<lparr> cond_holds = (\<lambda>f. num_lt (v_opacity (f_visual f)) 0.5 \<and> b_isInteractive (f_behavioral f)),
         cond_score = 0.85, cond_pattern = ''visual-obstruction'',
         cond_reason = ''Important interactive element has low visibility'' \<rparr>,
       \<lparr> cond_holds = (\<lambda>f. num_lt (v_contrastRatio (f_visual f)) 3 \<and> b_isInteractive (f_behavioral f)),
         cond_score = 0.75, cond_pattern = ''low-contrast-deception'',
         cond_reason = ''Low contrast used to hide important options'' \<rparr>,
       \<lparr> cond_holds = (\<lambda>f. v_isOverlay (f_visual f) \<and> c_isInModal (f_contextual f)),
         cond_score = 0.65, cond_pattern = ''forced-interaction'',
         cond_reason = ''Overlay forces user interaction'' \<rparr>,
       \<lparr> cond_holds = (\<lambda>f. b_hasPreselection (f_behavioral f) \<and> b_isForm (f_behavioral f)),
         cond_score = 0.8, cond_pattern = ''sneaky-preselection'',
         cond_reason = ''Form has pre-selected options that benefit the company'' \<rparr>,
       \<lparr> cond_holds = (\<lambda>f. b_blocksUserAction (f_behavioral f)),
         cond_score = 0.9, cond_pattern = ''forced-continuity'',
         cond_reason = ''Element blocks user from completing desired action'' \<rparr>,
       \<lparr> cond_holds = (\<lambda>f. b_hasTimeConstraint (f_behavioral f) \<and> t_hasUrgentLanguage (f_text f)),
         cond_score = 0.85, cond_pattern = ''pressure-tactics'',
         cond_reason = ''Combines time pressure with urgent language'' \<rparr>,
       \<lparr> cond_holds = (\<lambda>f. c_isInPopup (f_contextual f) \<and> c_appearsOnLoad (f_contextual f)),
         cond_score = 0.6, cond_pattern = ''intrusive-popup'',
         cond_reason = ''Popup appears immediately on page load'' \<rparr> ]"

text \<open>The rows whose condition holds for a feature set, and one row applied to the three arrays.\<close>

definition triggered :: "features \<Rightarrow> condition list" where
  "triggered f = filter (\<lambda>c. cond_holds c f) conditionTable"

definition push_condition :: "features \<Rightarrow> prediction_acc \<Rightarrow> condition \<Rightarrow> prediction_acc" where
  "push_condition f acc c =
     push3 (cond_holds c f) (cond_score c) (cond_pattern c) (cond_reason c) acc"



text \<open>The severity read off the heuristic confidence, and the order high \<open>>\<close> medium \<open>>\<close> low.\<close>

definition ai_severity :: "ai_result option \<Rightarrow> severity" where
  "ai_severity aiResult =
     (case aiResult of
        None \<Rightarrow> Low
      | Some a \<Rightarrow>
          if isDarkPattern a
          then (if ai_confidence a > 0.8 then High
                else if ai_confidence a > 0.6 then Medium else Low)
          else Low)"

fun sev_rank :: "severity \<Rightarrow> nat" where
  "sev_rank High = 3"
| "sev_rank Medium = 2"
| "sev_rank Low = 1"

text \<open>The rule-match list and the heuristic verdict that \<open>analyzeElement\<close> computes before fusing them.\<close>

definition ruleResults_of :: "detector \<Rightarrow> element \<Rightarrow> rule_match list" where
  "ruleResults_of this e =
     (if truthy (get_prop (config this) ''enableRuleBased'') then fst (applyRules this e []) else [])"

definition aiResult_of :: "detector \<Rightarrow> element \<Rightarrow> ai_result option" where
  "aiResult_of this e =
     (if truthy (get_prop (config this) ''enableAIBased'')
      then Some (detect (the_aiDetector this) e) else None)"

text \<open>The detector with another rule list, and what analysing one element adds to the scan results.\<close>

definition with_rules :: "rule list \<Rightarrow> detector \<Rightarrow> detector" where
  "with_rules rs this = this\<lparr> the_rules := (the_rules this)\<lparr> rules := rs \<rparr> \<rparr>"

definition analysis :: "detector \<Rightarrow> element \<Rightarrow> detection list" where
  "analysis this e = (case fst (analyzeElement this e []) of NotDetected \<Rightarrow> [] | Detected d \<Rightarrow> [d])"

text \<open>All rule matches of a list of detections, and how many of them carry a given category.\<close>

definition all_matches :: "detection list \<Rightarrow> rule_match list" where
  "all_matches ds = concat (map ruleMatches ds)"

definition occurrences :: "string \<Rightarrow> detection list \<Rightarrow> nat" where
  "occurrences cat ds = length (filter (\<lambda>m. category m = cat) (all_matches ds))"

definition issue_entry :: "top_issue \<Rightarrow> string \<times> nat" where
  "issue_entry t = (ti_category t, ti_count t)"

definition neutral_language :: string where
  "neutral_language = ''Use neutral language for decline options''"

section \<open>Example inputs\<close>

text \<open>A button with black text on white, fully opaque, 16 pixels, not positioned.\<close>

definition plain_style :: computed_style where
  "plain_style =
     \<lparr> css_opacity = Num 1, css_fontSize = Num 16, css_color = ''rgb(0, 0, 0)'',
       css_backgroundColor = ''rgb(255, 255, 255)'', css_zIndex = NaN,
       css_position = ''static'' \<rparr>"

definition scenario1_button :: element where
  "scenario1_button =
     \<lparr> textContent = Some ''No thanks, I hate saving money'', tagName = ''BUTTON'',
       className = '''', inputType = ''submit'', checked = False, attributes = [],
       firstLabelText = None, href = None, computedStyle = plain_style,
       style_cursor = '''', style_pointerEvents = '''', selectorHits = [],
       choiceInputs = [], ancestorClassNames = [] \<rparr>"

text \<open>The same button with the text of the result example in the README.\<close>

definition readme_button :: element where
  "readme_button = scenario1_button\<lparr> textContent := Some ''No thanks, I hate savings'' \<rparr>"

text \<open>A banner that only a signature rule flags, and what its analysis yields.\<close>

definition hurry_banner :: element where
  "hurry_banner = scenario1_button\<lparr> textContent := Some ''Hurry'', tagName := ''DIV'' \<rparr>"

definition hurry_verdict :: ai_result where
  "hurry_verdict =
     \<lparr> isDarkPattern = False, ai_confidence = 0, detectedPatterns = [],
       ai_features =
         \<lparr> f_text = \<lparr> t_hasNegativeLanguage = False, t_hasUrgentLanguage = True,
                      t_sentimentScore = 0, t_hasNumberClaims = False \<rparr>,
           f_visual = \<lparr> v_opacity = Num 1, v_isOverlay = False, v_contrastRatio = Num 5101 \<rparr>,
           f_behavioral = \<lparr> b_isInteractive = False, b_isForm = False, b_hasPreselection = False,
                            b_hasTimeConstraint = False, b_blocksUserAction = False \<rparr>,
           f_contextual = \<lparr> c_isInModal = False, c_isInPopup = False, c_appearsOnLoad = False \<rparr> \<rparr>,
       reasoning = [] \<rparr>"

definition hurry_detection :: detection where
  "hurry_detection =
     \<lparr> det_element = hurry_banner,
       ruleMatches = [match_of rule_urgency_countdown],
       aiDetection = Some hurry_verdict,
       det_confidence = 0.54,
       det_severity = High,
       recommendations =
         [''Remove or verify artificial urgency claims'',
          ''Ensure scarcity claims are accurate and not misleading''] \<rparr>"

text \<open>A nearly transparent link with a click handler that only the heuristics flag.\<close>

definition faded_link :: element where
  "faded_link =
     scenario1_button
       \<lparr> textContent := Some '''', tagName := ''A'', attributes := [''onclick''],
         computedStyle := plain_style\<lparr> css_opacity := Num 0.3 \<rparr> \<rparr>"

definition faded_verdict :: ai_result where
  "faded_verdict =
     \<lparr> isDarkPattern = True, ai_confidence = 0.85, detectedPatterns = [''visual-obstruction''],
       ai_features =
         \<lparr> f_text = \<lparr> t_hasNegativeLanguage = False, t_hasUrgentLanguage = False,
                      t_sentimentScore = 0, t_hasNumberClaims = False \<rparr>,
           f_visual = \<lparr> v_opacity = Num 0.3, v_isOverlay = False, v_contrastRatio = Num 5101 \<rparr>,
           f_behavioral = \<lparr> b_isInteractive = True, b_isForm = False, b_hasPreselection = False,
                            b_hasTimeConstraint = False, b_blocksUserAction = False \<rparr>,
           f_contextual = \<lparr> c_isInModal = False, c_isInPopup = False, c_appearsOnLoad = False \<rparr> \<rparr>,
       reasoning = [''Important interactive element has low visibility''] \<rparr>"

definition faded_detection :: detection where
  "faded_detection =
     \<lparr> det_element = faded_link,
       ruleMatches = [],
       aiDetection = Some faded_verdict,
       det_confidence = 0.34,
       det_severity = High,
       recommendations = [''AI detected: Important interactive element has low visibility''] \<rparr>"

text \<open>A rule added at run time whose structural predicate throws on every element.\<close>

definition broken_rule :: rule where
  "broken_rule =
     \<lparr> rule_id = ''custom-pattern'',
       rule_category = ''MISDIRECTION'',
       rule_name = ''Custom Dark Pattern'',
       rule_severity = High,
       rule_patterns = [],
       rule_checkElement = Some (\<lambda>e. Inl (Error ''TypeError'')) \<rparr>"

text \<open>
  The detector after that rule has been appended to the built-in ones, the detector
  after a scan that found the banner and the link, and a partial configuration.
\<close>

definition extended_detector :: detector where
  "extended_detector = with_rules (rules DarkPatternRules @ [broken_rule]) DarkPatternDetector_new"

definition scanned_detector :: detector where
  "scanned_detector =
     DarkPatternDetector_new\<lparr> detectionResults := [hurry_detection, faded_detection] \<rparr>"

definition stricter_config :: "string \<rightharpoonup> jsval" where
  "stricter_config = map_of [(''minConfidence'', JNum 0.7)]"

section \<open>Supporting lemmas\<close>

subsection \<open>The matcher finds exactly the substrings that the expression denotes\<close>

inductive_simps matches_Zero: "matches i Zero w"
inductive_simps matches_Eps: "matches i Eps w"
inductive_simps matches_Chr: "matches i (Chr p) w"
inductive_simps matches_Digit: "matches i Digit w"
inductive_simps matches_Space: "matches i Space w"
inductive_simps matches_Dot: "matches i Dot w"
inductive_simps matches_Seq: "matches i (Seq r s) w"
inductive_simps matches_Alt: "matches i (Alt r s) w"

lemma nullable_iff: "nullable r \<longleftrightarrow> matches i r []"
  by (induction r)
     (auto simp: matches_Zero matches_Eps matches_Chr matches_Digit matches_Space matches_Dot
        matches_Seq matches_Alt intro: matches.m_star0)

lemma matches_seq: "matches i (seq r s) w \<longleftrightarrow> matches i (Seq r s) w"
  by (induction r s rule: seq.induct)
     (auto simp: matches_Zero matches_Eps matches_Seq)

lemma matches_alt: "matches i (alt r s) w \<longleftrightarrow> matches i (Alt r s) w"
  by (induction r s rule: alt.induct)
     (auto simp: matches_Zero matches_Alt)

lemma matches_Star_Cons_aux:
  "matches i q x \<Longrightarrow> q = Star r \<Longrightarrow> x = c # w \<Longrightarrow>
     \<exists>u v. w = u @ v \<and> matches i r (c # u) \<and> matches i (Star r) v"
proof (induction arbitrary: w rule: matches.induct)
  case (m_star i r' u v)
  show ?case
  proof (cases u)
    case Nil
    with m_star show ?thesis by simp
  next
    case (Cons a u')
    with m_star.prems have "a = c" "w = u' @ v" by simp_all
    with m_star.hyps(1,2) m_star.prems(1) Cons show ?thesis by blast
  qed
qed simp_all

lemma matches_Star_Cons:
  "matches i (Star r) (c # w) \<longleftrightarrow>
     (\<exists>u v. w = u @ v \<and> matches i r (c # u) \<and> matches i (Star r) v)"
proof
  assume "matches i (Star r) (c # w)"
  then show "\<exists>u v. w = u @ v \<and> matches i r (c # u) \<and> matches i (Star r) v"
    by (rule matches_Star_Cons_aux) simp_all
next
  assume "\<exists>u v. w = u @ v \<and> matches i r (c # u) \<and> matches i (Star r) v"
  then obtain u v where "w = u @ v" "matches i r (c # u)" "matches i (Star r) v" by blast
  then show "matches i (Star r) (c # w)"
    using matches.m_star[of i r "c # u" v] by simp
qed

lemma matches_deriv: "matches i (deriv_re i c r) w \<longleftrightarrow> matches i r (c # w)"
proof (induction r arbitrary: w)
  case (Seq r s)
  show ?case
  proof
    assume "matches i (deriv_re i c (Seq r s)) w"
    then consider "matches i (Seq (deriv_re i c r) s) w" | "nullable r" "matches i (deriv_re i c s) w"
      by (auto simp: matches_alt matches_seq matches_Alt split: if_splits)
    then show "matches i (Seq r s) (c # w)"
    proof cases
      case 1
      then obtain u v where "w = u @ v" "matches i (deriv_re i c r) u" "matches i s v"
        by (auto simp: matches_Seq)
      then have "matches i r (c # u)" "matches i s v" "c # w = (c # u) @ v"
        by (simp_all add: Seq.IH)
      then show ?thesis using matches.m_seq by metis
    next
      case 2
      then have "matches i r []" "matches i s (c # w)"
        by (simp_all add: nullable_iff[of r i] Seq.IH)
      then show ?thesis using matches.m_seq[of i r "[]" s "c # w"] by simp
    qed
  next
    assume "matches i (Seq r s) (c # w)"
    then obtain u v where uv: "c # w = u @ v" "matches i r u" "matches i s v"
      by (auto simp: matches_Seq)
    show "matches i (deriv_re i c (Seq r s)) w"
    proof (cases u)
      case Nil
      with uv have "nullable r" "matches i (deriv_re i c s) w"
        by (simp_all add: nullable_iff[of r i] Seq.IH)
      then show ?thesis by (simp add: matches_alt matches_Alt)
    next
      case (Cons a u')
      with uv have "a = c" "w = u' @ v" by simp_all
      with uv Cons have "matches i (deriv_re i c r) u'" by (simp add: Seq.IH)
      with \<open>w = u' @ v\<close> uv(3) have "matches i (Seq (deriv_re i c r) s) w"
        using matches.m_seq by metis
      then show ?thesis by (simp add: matches_alt matches_seq matches_Alt)
    qed
  qed
next
  case (Star r)
  show ?case
  proof
    assume "matches i (deriv_re i c (Star r)) w"
    then obtain u v where "w = u @ v" "matches i (deriv_re i c r) u" "matches i (Star r) v"
      by (auto simp: matches_seq matches_Seq)
    then show "matches i (Star r) (c # w)"
      by (auto simp: matches_Star_Cons Star.IH)
  next
    assume "matches i (Star r) (c # w)"
    then obtain u v where "w = u @ v" "matches i r (c # u)" "matches i (Star r) v"
      by (auto simp: matches_Star_Cons)
    then have "matches i (Seq (deriv_re i c r) (Star r)) w"
      using matches.m_seq[of i "deriv_re i c r" u "Star r" v] by (simp add: Star.IH)
    then show "matches i (deriv_re i c (Star r)) w" by (simp add: matches_seq)
  qed
qed (auto simp: matches_Zero matches_Eps matches_Chr matches_Digit matches_Space matches_Dot
       matches_Alt matches_alt)

lemma matchPrefix_Nil: "matchPrefix i r [] = nullable r"
  by (cases r) simp_all

lemma matchPrefix_Cons:
  "matchPrefix i r (c # cs) = (nullable r \<or> matchPrefix i (deriv_re i c r) cs)"
  by (cases r) simp_all

lemma matchPrefix_iff: "matchPrefix i r s \<longleftrightarrow> (\<exists>u v. s = u @ v \<and> matches i r u)"
proof (induction s arbitrary: r)
  case Nil
  show ?case by (simp add: matchPrefix_Nil nullable_iff[of r i])
next
  case (Cons c cs)
  show ?case
  proof
    assume "matchPrefix i r (c # cs)"
    then consider "nullable r" | "matchPrefix i (deriv_re i c r) cs"
      by (auto simp: matchPrefix_Cons)
    then show "\<exists>u v. c # cs = u @ v \<and> matches i r u"
    proof cases
      case 1
      then have "matches i r []" by (simp add: nullable_iff[of r i])
      then show ?thesis by force
    next
      case 2
      then obtain u v where "cs = u @ v" "matches i (deriv_re i c r) u"
        by (auto simp: Cons.IH)
      then have "c # cs = (c # u) @ v" "matches i r (c # u)" by (simp_all add: matches_deriv)
      then show ?thesis by blast
    qed
  next
    assume "\<exists>u v. c # cs = u @ v \<and> matches i r u"
    then obtain u v where uv: "c # cs = u @ v" "matches i r u" by blast
    show "matchPrefix i r (c # cs)"
    proof (cases u)
      case Nil
      with uv(2) show ?thesis by (simp add: matchPrefix_Cons nullable_iff[of r i])
    next
      case (Cons a u')
      with uv have "cs = u' @ v" "matches i (deriv_re i c r) u'" by (simp_all add: matches_deriv)
      then have "matchPrefix i (deriv_re i c r) cs" using Cons.IH by blast
      then show ?thesis by (simp add: matchPrefix_Cons)
    qed
  qed
qed

lemma search_iff: "search i r s \<longleftrightarrow> (\<exists>u v w. s = u @ v @ w \<and> matches i r v)"
proof (induction s)
  case Nil
  show ?case by (simp add: nullable_iff[of r i])
next
  case (Cons c cs)
  show ?case
  proof
    assume "search i r (c # cs)"
    then consider "matchPrefix i r (c # cs)" | "search i r cs" by auto
    then show "\<exists>u v w. c # cs = u @ v @ w \<and> matches i r v"
    proof cases
      case 1
      then obtain v w where "c # cs = v @ w" "matches i r v" by (auto simp: matchPrefix_iff)
      then have "c # cs = [] @ v @ w \<and> matches i r v" by simp
      then show ?thesis by blast
    next
      case 2
      then obtain u v w where "cs = u @ v @ w" "matches i r v" by (auto simp: Cons.IH)
      then have "c # cs = (c # u) @ v @ w \<and> matches i r v" by simp
      then show ?thesis by blast
    qed
  next
    assume "\<exists>u v w. c # cs = u @ v @ w \<and> matches i r v"
    then obtain u v w where uvw: "c # cs = u @ v @ w" "matches i r v" by blast
    show "search i r (c # cs)"
    proof (cases u)
      case Nil
      with uvw have "matchPrefix i r (c # cs)" by (auto simp: matchPrefix_iff)
      then show ?thesis by simp
    next
      case (Cons a u')
      with uvw have "cs = u' @ v @ w" by simp
      with uvw(2) have "search i r cs" using Cons.IH by blast
      then show ?thesis by simp
    qed
  qed
qed

lemma test_iff:
  "test (RegExp r icase) s \<longleftrightarrow> (\<exists>u v w. s = u @ v @ w \<and> matches icase r v)"
  by (simp add: search_iff)

subsection \<open>Sets as lists, sums and means\<close>

lemma foldl_plus_sum_list: "foldl (\<lambda>a b. a + b) (a::rat) xs = a + sum_list xs"
  by (induction xs arbitrary: a) simp_all

lemma set_add_set: "set (set_add s x) = insert x (set s)"
  by (auto simp: set_add_def)


lemma foldl_set_add_set: "set (foldl set_add s xs) = set s \<union> set xs"
  by (induction xs arbitrary: s) (simp_all add: set_add_set)


lemma set_new_Set: "set (new_Set xs) = set xs"
  by (simp add: new_Set_def foldl_set_add_set)




lemma sum_list_bounds:
  fixes xs :: "rat list"
  assumes "\<And>x. x \<in> set xs \<Longrightarrow> a \<le> x \<and> x \<le> b"
  shows "a * of_nat (length xs) \<le> sum_list xs \<and> sum_list xs \<le> b * of_nat (length xs)"
  using assms
proof (induction xs)
  case Nil
  then show ?case by simp
next
  case (Cons x xs)
  then have "a \<le> x" "x \<le> b" by auto
  moreover from Cons have "a * of_nat (length xs) \<le> sum_list xs \<and> sum_list xs \<le> b * of_nat (length xs)"
    by auto
  ultimately show ?case by (simp add: algebra_simps)
qed

lemma mean_bounds:
  fixes xs :: "rat list"
  assumes "xs \<noteq> []" and "\<And>x. x \<in> set xs \<Longrightarrow> a \<le> x \<and> x \<le> b"
  shows "a \<le> mean xs \<and> mean xs \<le> b"
proof -
  have n: "0 < (of_nat (length xs) :: rat)" using assms(1) by simp
  from sum_list_bounds[OF assms(2)]
  have "a * of_nat (length xs) \<le> sum_list xs" "sum_list xs \<le> b * of_nat (length xs)" by auto
  with n show ?thesis
    by (simp add: mean_def pos_le_divide_eq pos_divide_le_eq)
qed


subsection \<open>The heuristic scorer\<close>

lemma collectPredictions_foldl:
  "collectPredictions f = foldl (push_condition f) ([], [], []) conditionTable"
  by (simp add: collectPredictions_def conditionTable_def push_condition_def Let_def)

lemma foldl_push_condition:
  "foldl (push_condition f) (ss, ps, rs) cs =
     (ss @ map cond_score (filter (\<lambda>c. cond_holds c f) cs),
      ps @ map cond_pattern (filter (\<lambda>c. cond_holds c f) cs),
      rs @ map cond_reason (filter (\<lambda>c. cond_holds c f) cs))"
  by (induction cs arbitrary: ss ps rs) (simp_all add: push_condition_def push3_def)

lemma collectPredictions_triggered:
  "collectPredictions f =
     (map cond_score (triggered f), map cond_pattern (triggered f), map cond_reason (triggered f))"
  by (simp add: collectPredictions_foldl foldl_push_condition triggered_def)

lemma makePredictions_triggered:
  "makePredictions f =
     \<lparr> p_confidence = (if triggered f = [] then 0 else mean (map cond_score (triggered f))),
       p_patterns = new_Set (map cond_pattern (triggered f)),
       p_reasoning = map cond_reason (triggered f) \<rparr>"
  by (simp add: makePredictions_def collectPredictions_triggered mean_def foldl_plus_sum_list)

lemma detect_fields:
  "isDarkPattern (detect this e) = (suspicionThreshold this \<le> p_confidence (makePredictions (extractFeatures e)))"
  "ai_confidence (detect this e) = p_confidence (makePredictions (extractFeatures e))"
  "detectedPatterns (detect this e) = p_patterns (makePredictions (extractFeatures e))"
  "reasoning (detect this e) = p_reasoning (makePredictions (extractFeatures e))"
  "ai_features (detect this e) = extractFeatures e"
  by (simp_all add: detect_def Let_def)

lemma conditionTable_scores:
  "c \<in> set conditionTable \<Longrightarrow> 0.6 \<le> cond_score c \<and> cond_score c \<le> 0.9"
  by (auto simp: conditionTable_def)

lemma triggered_subset: "c \<in> set (triggered f) \<Longrightarrow> c \<in> set conditionTable"
  by (simp add: triggered_def)

lemma triggered_mean_bounds:
  assumes "triggered f \<noteq> []"
  shows "0.6 \<le> mean (map cond_score (triggered f)) \<and> mean (map cond_score (triggered f)) \<le> 0.9"
proof (rule mean_bounds)
  show "map cond_score (triggered f) \<noteq> []" using assms by simp
next
  fix x assume "x \<in> set (map cond_score (triggered f))"
  then obtain c where "c \<in> set (triggered f)" "x = cond_score c" by auto
  then show "0.6 \<le> x \<and> x \<le> 0.9"
    using conditionTable_scores[of c] triggered_subset[of c f] by simp
qed

lemma makePredictions_confidence_cases:
  "(triggered f = [] \<and> p_confidence (makePredictions f) = 0)
   \<or> (triggered f \<noteq> [] \<and> 0.6 \<le> p_confidence (makePredictions f) \<and> p_confidence (makePredictions f) \<le> 0.9)"
  using triggered_mean_bounds[of f] by (simp add: makePredictions_triggered)




subsection \<open>Rule evaluation and per-element analysis\<close>

lemma applyRules_loop_eq:
  "applyRules_loop rs e (ms, con) =
     (ms @ map match_of (filter (\<lambda>r. fst (checkRule r e)) rs),
      con @ concat (map (\<lambda>r. snd (checkRule r e)) rs))"
  by (induction rs arbitrary: ms con) (auto split: prod.splits)

lemma applyRules_eq:
  "applyRules this e con =
     (map match_of (filter (\<lambda>r. fst (checkRule r e)) (rules (the_rules this))),
      con @ concat (map (\<lambda>r. snd (checkRule r e)) (rules (the_rules this))))"
  by (simp add: applyRules_def applyRules_loop_eq)

lemma fst_applyRules_console: "fst (applyRules this e con) = fst (applyRules this e [])"
  by (simp add: applyRules_eq)



lemma analyzeElement_fst:
  "fst (analyzeElement this e con) =
     (if ruleResults_of this e = [] \<and> \<not> ai_positive (aiResult_of this e) then NotDetected
      else Detected
             \<lparr> det_element = e,
               ruleMatches = ruleResults_of this e,
               aiDetection = aiResult_of this e,
               det_confidence = calculateOverallConfidence (ruleResults_of this e) (aiResult_of this e),
               det_severity = determineSeverity (ruleResults_of this e) (aiResult_of this e),
               recommendations = generateRecommendations (ruleResults_of this e) (aiResult_of this e) \<rparr>)"
  by (simp add: analyzeElement_def ruleResults_of_def aiResult_of_def Let_def applyRules_eq
      split: prod.splits)

lemma analyzeElement_snd:
  "snd (analyzeElement this e con) =
     (if truthy (get_prop (config this) ''enableRuleBased'')
      then con @ concat (map (\<lambda>r. snd (checkRule r e)) (rules (the_rules this)))
      else con)"
  by (simp add: analyzeElement_def Let_def applyRules_eq split: prod.splits)

lemma analyzeElement_fst_console:
  "fst (analyzeElement this e con) = fst (analyzeElement this e [])"
  by (simp add: analyzeElement_fst)

lemma analyzeElement_state_independent:
  "fst (analyzeElement (this\<lparr> detectionResults := xs \<rparr>) e con') = fst (analyzeElement this e con)"
  by (simp add: analyzeElement_fst ruleResults_of_def aiResult_of_def applyRules_eq)

lemma checkRule_throws:
  assumes "rule_checkElement r = Some check" "check e = Inl err"
    "\<not> list_ex (\<lambda>pattern. test pattern (text_of e)) (rule_patterns r)"
  shows "checkRule r e = (False, [(rule_id r, err)])"
  using assms by (simp add: checkRule_def Let_def)

lemma fst_analyzeElement_without_throwing_rule:
  assumes "rules (the_rules this) = rs1 @ r # rs2"
    and "rule_checkElement r = Some check" "check e = Inl err"
    and "\<not> list_ex (\<lambda>pattern. test pattern (text_of e)) (rule_patterns r)"
  shows "fst (analyzeElement this e con) = fst (analyzeElement (with_rules (rs1 @ rs2) this) e con)"
  using assms(1) checkRule_throws[OF assms(2,3,4)]
  by (simp add: analyzeElement_fst ruleResults_of_def aiResult_of_def applyRules_eq with_rules_def)

lemma scan_loop_results:
  "fst (scan_loop els (this, con)) =
     this\<lparr> detectionResults := detectionResults this @ concat (map (analysis this) els) \<rparr>"
proof (induction els arbitrary: this con)
  case Nil
  then show ?case by simp
next
  case (Cons e els)
  obtain r con' where a: "analyzeElement this e con = (r, con')" by (cases "analyzeElement this e con")
  then have r: "fst (analyzeElement this e []) = r"
    using analyzeElement_fst_console[of this e con] by simp
  show ?case
  proof (cases r)
    case NotDetected
    with r have hd: "analysis this e = []" by (simp add: analysis_def)
    from a NotDetected Cons.IH[of this con'] show ?thesis by (simp add: hd)
  next
    case (Detected d)
    with r have hd: "analysis this e = [d]" by (simp add: analysis_def)
    have indep: "analysis (this\<lparr> detectionResults := detectionResults this @ [d] \<rparr>) = analysis this"
      by (rule ext)
         (simp add: analysis_def analyzeElement_state_independent[where con'="[]" and con="[]"])
    from a Detected Cons.IH[of "this\<lparr> detectionResults := detectionResults this @ [d] \<rparr>" con']
    show ?thesis by (simp add: indep hd)
  qed
qed

lemma analysis_results_independent:
  "analysis (this\<lparr> detectionResults := xs \<rparr>) = analysis this"
  by (rule ext)
     (simp add: analysis_def analyzeElement_state_independent[where con'="[]" and con="[]"])

lemma analysis_without_throwing_rule:
  assumes "rules (the_rules this) = rs1 @ r # rs2"
    and "rule_checkElement r = Some check" "check e = Inl err"
    and "\<not> list_ex (\<lambda>pattern. test pattern (text_of e)) (rule_patterns r)"
  shows "analysis this e = analysis (with_rules (rs1 @ rs2) this) e"
  using fst_analyzeElement_without_throwing_rule[OF assms, of "[]"] by (simp add: analysis_def)

subsection \<open>Fusion: confidence, severity, recommendations\<close>







lemma sev_rank_cases: "s = High \<or> s = Medium \<or> s = Low"
  by (cases s) simp_all

lemma determineSeverity_eq:
  "determineSeverity rs ai =
     (if High \<in> severity ` set rs then High
      else if Medium \<in> severity ` set rs then Medium
      else if Low \<in> severity ` set rs then Low
      else ai_severity ai)"
  by (simp add: determineSeverity_def ai_severity_def Let_def split: option.splits)

lemma determineSeverity_high:
  "High \<in> severity ` set rs \<Longrightarrow> determineSeverity rs ai = High"
  by (simp add: determineSeverity_eq)

lemma determineSeverity_member:
  assumes "rs \<noteq> []"
  shows "determineSeverity rs ai \<in> severity ` set rs"
proof -
  from assms obtain m where m: "m \<in> set rs" by (cases rs) auto
  then have "severity m \<in> severity ` set rs" by simp
  with sev_rank_cases[of "severity m"]
  have "High \<in> severity ` set rs \<or> Medium \<in> severity ` set rs \<or> Low \<in> severity ` set rs"
    by metis
  then show ?thesis by (auto simp: determineSeverity_eq)
qed

lemma determineSeverity_upper:
  assumes m: "m \<in> set rs"
  shows "sev_rank (severity m) \<le> sev_rank (determineSeverity rs ai)"
proof -
  have mem: "severity m \<in> severity ` set rs" using m by simp
  show ?thesis
  proof (cases "severity m")
    case High
    with mem show ?thesis by (simp add: determineSeverity_eq)
  next
    case Medium
    with mem show ?thesis by (simp add: determineSeverity_eq)
  next
    case Low
    with mem show ?thesis by (simp add: determineSeverity_eq)
  qed
qed

lemma determineSeverity_no_rules: "determineSeverity [] ai = ai_severity ai"
  by (simp add: determineSeverity_eq)

lemma foldl_set_add_category:
  "set (foldl (\<lambda>s r. set_add s (category r)) s0 rs) = set s0 \<union> category ` set rs"
  by (induction rs arbitrary: s0) (auto simp: set_add_set)

lemma generateRecommendations_confirmshaming:
  assumes "m \<in> set rs" "category m = ''CONFIRMSHAMING''"
  shows "neutral_language \<in> set (generateRecommendations rs ai)"
proof -
  have "''CONFIRMSHAMING'' \<in> set (foldl (\<lambda>s r. set_add s (category r)) [] rs)"
    using assms by (force simp: foldl_set_add_category)
  then show ?thesis
    by (cases ai) (simp_all add: generateRecommendations_def Let_def set_new_Set neutral_language_def)
qed

subsection \<open>Summary\<close>

lemma increment_counts:
  "count_high (increment s c) = count_high c + (if s = High then 1 else 0)"
  "count_medium (increment s c) = count_medium c + (if s = Medium then 1 else 0)"
  "count_low (increment s c) = count_low c + (if s = Low then 1 else 0)"
  by (cases s; simp)+

lemma foldl_count_detection:
  "foldl count_detection (sev, byCat) ds =
     (foldl (\<lambda>c d. increment (det_severity d) c) sev ds,
      foldl (\<lambda>b m. count_category b (category m)) byCat (all_matches ds))"
  by (induction ds arbitrary: sev byCat) (simp_all add: count_detection_def all_matches_def)

lemma foldl_increment:
  "count_high (foldl (\<lambda>c d. increment (det_severity d) c) sev ds)
     = count_high sev + length (filter (\<lambda>d. det_severity d = High) ds)"
  "count_medium (foldl (\<lambda>c d. increment (det_severity d) c) sev ds)
     = count_medium sev + length (filter (\<lambda>d. det_severity d = Medium) ds)"
  "count_low (foldl (\<lambda>c d. increment (det_severity d) c) sev ds)
     = count_low sev + length (filter (\<lambda>d. det_severity d = Low) ds)"
  by (induction ds arbitrary: sev; simp add: increment_counts)+

lemma severity_partition:
  "length (filter (\<lambda>d. det_severity d = High) ds)
   + length (filter (\<lambda>d. det_severity d = Medium) ds)
   + length (filter (\<lambda>d. det_severity d = Low) ds) = length ds"
proof (induction ds)
  case Nil
  then show ?case by simp
next
  case (Cons d ds)
  then show ?case by (cases "det_severity d") simp_all
qed

lemma map_of_count_category:
  "map_of (count_category byCat cat) c =
     (if c = cat then Some ((case map_of byCat cat of None \<Rightarrow> 0 | Some n \<Rightarrow> n) + 1)
      else map_of byCat c)"
  by (simp add: count_category_def update_conv')

lemma distinct_count_category:
  "distinct (map fst byCat) \<Longrightarrow> distinct (map fst (count_category byCat cat))"
  by (simp add: count_category_def distinct_update)

lemma map_of_foldl_count_category:
  "map_of (foldl (\<lambda>b m. count_category b (category m)) byCat ms) c =
     (let n = length (filter (\<lambda>m. category m = c) ms)
      in if n = 0 then map_of byCat c
         else Some ((case map_of byCat c of None \<Rightarrow> 0 | Some k \<Rightarrow> k) + n))"
proof (induction ms arbitrary: byCat)
  case Nil
  then show ?case by simp
next
  case (Cons m ms)
  show ?case
    by (simp add: Cons.IH map_of_count_category Let_def split: option.splits)
qed

lemma distinct_foldl_count_category:
  "distinct (map fst byCat) \<Longrightarrow>
   distinct (map fst (foldl (\<lambda>b m. count_category b (category m)) byCat ms))"
  by (induction ms arbitrary: byCat) (simp_all add: distinct_count_category)

lemma generateSummary_fields:
  "totalDetections (generateSummary this) = length (detectionResults this)"
  "bySeverity (generateSummary this) =
     foldl (\<lambda>c d. increment (det_severity d) c)
       \<lparr> count_high = 0, count_medium = 0, count_low = 0 \<rparr> (detectionResults this)"
  "byCategory (generateSummary this) =
     foldl (\<lambda>b m. count_category b (category m)) [] (all_matches (detectionResults this))"
  "map issue_entry (topIssues (generateSummary this)) =
     take 5 (sort_key (\<lambda>(cat, n). - int n) (byCategory (generateSummary this)))"
  "map ti_categoryName (topIssues (generateSummary this)) =
     map (categoryName_of (the_rules this)) (map ti_category (topIssues (generateSummary this)))"
  by (simp_all add: generateSummary_def foldl_count_detection Let_def issue_entry_def
      take_map[symmetric] case_prod_unfold o_def)

lemma distinct_map_fst_sort_key:
  "distinct (map fst xs) \<Longrightarrow> distinct (map fst (sort_key f xs))"
  by (simp add: distinct_map)

lemma sorted_take_drop_le:
  assumes "sorted (map f xs)" "x \<in> set (take n xs)" "y \<in> set (drop n xs)"
  shows "f x \<le> f y"
proof -
  have "sorted (map f (take n xs) @ map f (drop n xs))"
    using assms(1) by (simp flip: map_append)
  then show ?thesis using assms(2,3) by (auto simp: sorted_append)
qed

lemma top_entries_properties:
  fixes byCat :: "(string \<times> nat) list"
  defines "best \<equiv> take 5 (sort_key (\<lambda>(cat, n). - int n) byCat)"
  assumes d: "distinct (map fst byCat)"
  shows "length best = min 5 (length byCat)"
    and "set best \<subseteq> set byCat"
    and "sorted_wrt (\<ge>) (map snd best)"
    and "\<And>c n c' n'. (c, n) \<in> set byCat \<Longrightarrow> (c, n) \<notin> set best \<Longrightarrow> (c', n') \<in> set best \<Longrightarrow> n \<le> n'"
    and "distinct (map fst best)"
proof -
  let ?f = "\<lambda>(cat, n). - int (n::nat)"
  let ?xs = "sort_key ?f byCat"
  show "length best = min 5 (length byCat)" by (simp add: best_def min.commute)
  show "set best \<subseteq> set byCat"
    using set_take_subset[of 5 ?xs] by (simp add: best_def)
  have s: "sorted (map ?f ?xs)" by simp
  then have "sorted (map ?f best)" unfolding best_def
    by (metis sorted_wrt_take take_map)
  then have "sorted_wrt (\<lambda>a b. ?f a \<le> ?f b) best"
    by (simp add: sorted_wrt_map)
  then have "sorted_wrt (\<lambda>a b. snd a \<ge> snd b) best"
    by (rule sorted_wrt_mono_rel[rotated]) (auto simp: case_prod_unfold)
  then show "sorted_wrt (\<ge>) (map snd best)" by (simp add: sorted_wrt_map)
  show "n \<le> n'" if "(c, n) \<in> set byCat" "(c, n) \<notin> set best" "(c', n') \<in> set best" for c n c' n'
  proof -
    have "(c, n) \<in> set ?xs" using that(1) by simp
    then have "(c, n) \<in> set (take 5 ?xs) \<union> set (drop 5 ?xs)"
      by (metis append_take_drop_id set_append)
    with that(2) have "(c, n) \<in> set (drop 5 ?xs)" by (simp add: best_def)
    from sorted_take_drop_le[OF s _ this, of "(c', n')"] that(3)
    show ?thesis by (simp add: best_def)
  qed
  have "distinct (map fst ?xs)" using d by (rule distinct_map_fst_sort_key)
  then show "distinct (map fst best)"
    unfolding best_def by (metis distinct_take take_map)
qed

lemma byCategory_distinct: "distinct (map fst (byCategory (generateSummary this)))"
  by (simp add: generateSummary_fields distinct_foldl_count_category)

lemma categoryName_of_enum_all:
  "list_all (\<lambda>(k, name). categoryName_of DarkPatternRules k = name) (categories DarkPatternRules)"
  by code_simp

lemma categoryName_of_enum:
  "(k, name) \<in> set (categories DarkPatternRules) \<Longrightarrow> categoryName_of DarkPatternRules k = name"
  using categoryName_of_enum_all by (auto simp: list_all_iff)

lemma issue_entry_maps:
  "map fst (map issue_entry ts) = map ti_category ts"
  "map snd (map issue_entry ts) = map ti_count ts"
  by (simp_all add: issue_entry_def o_def)

lemma generateSummary_cong:
  assumes "detectionResults a = detectionResults b"
    and "categories (the_rules a) = categories (the_rules b)"
  shows "generateSummary a = generateSummary b"
proof -
  have "categoryName_of (the_rules a) = categoryName_of (the_rules b)"
    by (rule ext) (simp add: categoryName_of_def assms(2))
  then show ?thesis by (simp add: generateSummary_def assms(1))
qed

lemma scanPage_report:
  "fst (scanPage this els con) =
     \<lparr> totalElements = length els,
       detections = concat (map (analysis this) els),
       rep_summary = generateSummary (this\<lparr> detectionResults := concat (map (analysis this) els) \<rparr>) \<rparr>"
proof -
  obtain this' con' where s: "scan_loop els (this\<lparr> detectionResults := [] \<rparr>, con) = (this', con')"
    by (cases "scan_loop els (this\<lparr> detectionResults := [] \<rparr>, con)")
  have "this' = fst (scan_loop els (this\<lparr> detectionResults := [] \<rparr>, con))" by (simp add: s)
  then have t: "this' = this\<lparr> detectionResults := concat (map (analysis this) els) \<rparr>"
    by (simp add: scan_loop_results analysis_results_independent)
  show ?thesis by (simp add: scanPage_def s t)
qed

lemma scanPage_totalElements: "totalElements (fst (scanPage this els con)) = length els"
  by (simp add: scanPage_report)

lemma scanPage_without_throwing_rule:
  assumes "rules (the_rules this) = rs1 @ r # rs2"
    and "rule_checkElement r = Some check"
    and "\<forall>x \<in> set els. (\<exists>err. check x = Inl err)
            \<and> \<not> list_ex (\<lambda>pattern. test pattern (text_of x)) (rule_patterns r)"
  shows "fst (scanPage this els con) = fst (scanPage (with_rules (rs1 @ rs2) this) els con)"
proof -
  have m: "map (analysis this) els = map (analysis (with_rules (rs1 @ rs2) this)) els"
  proof (rule map_cong[OF refl])
    fix x assume "x \<in> set els"
    with assms(3) obtain err where "check x = Inl err"
      "\<not> list_ex (\<lambda>pattern. test pattern (text_of x)) (rule_patterns r)" by blast
    then show "analysis this x = analysis (with_rules (rs1 @ rs2) this) x"
      by (rule analysis_without_throwing_rule[OF assms(1,2)])
  qed
  have c: "concat (map (analysis this) els) = concat (map (analysis (with_rules (rs1 @ rs2) this)) els)"
    by (simp only: m)
  have g: "generateSummary (this\<lparr> detectionResults := ds \<rparr>)
          = generateSummary ((with_rules (rs1 @ rs2) this)\<lparr> detectionResults := ds \<rparr>)" for ds
    by (rule generateSummary_cong) (simp_all add: with_rules_def)
  show ?thesis by (simp only: scanPage_report c g)
qed

subsection \<open>The rule database on the example inputs\<close>

lemma confirmshaming_pattern_matches:
  "list_ex (\<lambda>pattern. test pattern ''No thanks, I hate savings'') (rule_patterns rule_confirmshaming)"
  by code_simp

lemma confirmshaming_in_rules: "rule_confirmshaming \<in> set (rules DarkPatternRules)"
  by (simp add: DarkPatternRules_def)

lemma match_of_confirmshaming:
  "category (match_of rule_confirmshaming) = ''CONFIRMSHAMING''"
  "severity (match_of rule_confirmshaming) = Medium"
  by (simp_all add: match_of_def rule_confirmshaming_def)

lemma enableRuleBased_default: "truthy (get_prop (config DarkPatternDetector_new) ''enableRuleBased'')"
  by code_simp

lemma enableAIBased_default: "truthy (get_prop (config DarkPatternDetector_new) ''enableAIBased'')"
  by code_simp

lemma scenario1_confirmshaming: "checkRule rule_confirmshaming scenario1_button = (False, [])"
  by code_simp

lemma scenario1_analysis:
  "analyzeElement DarkPatternDetector_new scenario1_button [] = (NotDetected, [])"
  by code_simp

lemma hurry_analysis:
  "fst (analyzeElement DarkPatternDetector_new hurry_banner []) = Detected hurry_detection"
  by code_simp

lemma faded_analysis:
  "fst (analyzeElement DarkPatternDetector_new faded_link []) = Detected faded_detection"
  by code_simp

lemma faded_detect: "detect AIDetector_new faded_link = faded_verdict"
  by code_simp

lemma hurry_detection_facts:
  "ruleMatches hurry_detection = [match_of rule_urgency_countdown]"
  "\<not> ai_positive (aiDetection hurry_detection)"
  "det_severity hurry_detection = High"
  "severity (match_of rule_urgency_countdown) = High"
  "category (match_of rule_urgency_countdown) = ''URGENCY''"
  by (simp_all add: hurry_detection_def hurry_verdict_def ai_positive_def match_of_def
      rule_urgency_countdown_def)

lemma faded_detection_facts:
  "ruleMatches faded_detection = []"
  "aiDetection faded_detection = Some faded_verdict"
  "ai_positive (aiDetection faded_detection)"
  "det_severity faded_detection = High"
  "isDarkPattern faded_verdict"
  "ai_confidence faded_verdict = 0.85"
  by (simp_all add: faded_detection_def faded_verdict_def ai_positive_def)

lemma faded_features: "extractFeatures faded_link = ai_features faded_verdict"
  using detect_fields(5)[of AIDetector_new faded_link] by (simp add: faded_detect)

lemma faded_triggered_scores: "map cond_score (triggered (ai_features faded_verdict)) = [0.85]"
  by (simp add: triggered_def conditionTable_def faded_verdict_def)

lemma example_scan:
  "detections (fst (scanPage DarkPatternDetector_new [hurry_banner, faded_link] []))
     = [hurry_detection, faded_detection]"
  "rep_summary (fst (scanPage DarkPatternDetector_new [hurry_banner, faded_link] []))
     = generateSummary scanned_detector"
  by (simp_all add: scanPage_report analysis_def hurry_analysis faded_analysis scanned_detector_def)

lemma extended_detector_facts:
  "rules (the_rules extended_detector) = rules DarkPatternRules @ broken_rule # []"
  "with_rules (rules DarkPatternRules) extended_detector = DarkPatternDetector_new"
  "config extended_detector = config DarkPatternDetector_new"
  by (simp_all add: extended_detector_def with_rules_def DarkPatternDetector_new_def)

lemma broken_rule_facts:
  "rule_checkElement broken_rule = Some (\<lambda>e. Inl (Error ''TypeError''))"
  "rule_patterns broken_rule = []"
  "rule_id broken_rule = ''custom-pattern''"
  by (simp_all add: broken_rule_def)

lemma scanned_detector_results:
  "detectionResults scanned_detector = [hurry_detection, faded_detection]"
  by (simp add: scanned_detector_def)

lemma scanned_occurrences:
  "occurrences ''URGENCY'' [hurry_detection, faded_detection] = 1"
  by (simp add: occurrences_def all_matches_def hurry_detection_facts faded_detection_facts)

lemma scanned_topIssues:
  "topIssues (generateSummary scanned_detector)
     = [\<lparr> ti_category = ''URGENCY'', ti_count = 1, ti_categoryName = ''Urgency & Scarcity'' \<rparr>]"
  by code_simp

section \<open>The claims\<close>



text \<open>
  Claim C2.  The result of \<open>analyzeElement\<close> has \<open>detected\<close> true if and only if the
  rule-match list is non-empty or the heuristic verdict is positive.  Rule evaluation
  and heuristic scoring each run only when enabled in the configuration; a disabled
  side contributes an empty list or no verdict.
\<close>

theorem C2_detected_iff:
  "(detected (fst (analyzeElement this e con)) \<longleftrightarrow>
      (truthy (get_prop (config this) ''enableRuleBased'') \<and> length (fst (applyRules this e con)) > 0)
      \<or> (truthy (get_prop (config this) ''enableAIBased'')
          \<and> isDarkPattern (detect (the_aiDetector this) e)))
   \<and> (\<forall>d. fst (analyzeElement this e con) = Detected d \<longrightarrow>
          (length (ruleMatches d) > 0 \<or> ai_positive (aiDetection d)))
   \<and> (fst (analyzeElement this e con) = NotDetected \<longrightarrow>
          ruleResults_of this e = [] \<and> \<not> ai_positive (aiResult_of this e))"
  by (auto simp: analyzeElement_fst ruleResults_of_def aiResult_of_def ai_positive_def
      fst_applyRules_console[of this e con])

theorem C2_detected_iff_witness:
  "detected (fst (analyzeElement DarkPatternDetector_new hurry_banner []))
   \<and> ((truthy (get_prop (config DarkPatternDetector_new) ''enableRuleBased'')
        \<and> length (fst (applyRules DarkPatternDetector_new hurry_banner [])) > 0)
       \<or> (truthy (get_prop (config DarkPatternDetector_new) ''enableAIBased'')
           \<and> isDarkPattern (detect (the_aiDetector DarkPatternDetector_new) hurry_banner)))
   \<and> (length (ruleMatches hurry_detection) > 0 \<or> ai_positive (aiDetection hurry_detection))
   \<and> fst (analyzeElement DarkPatternDetector_new scenario1_button []) = NotDetected
   \<and> ruleResults_of DarkPatternDetector_new scenario1_button = []
   \<and> \<not> ai_positive (aiResult_of DarkPatternDetector_new scenario1_button)"
  using C2_detected_iff[of DarkPatternDetector_new hurry_banner "[]"]
    C2_detected_iff[of DarkPatternDetector_new scenario1_button "[]"]
    hurry_analysis scenario1_analysis
  by simp

text \<open>
  Claim C3, as stated, fails: a BUTTON with the text "No thanks, I hate saving money" is
  not matched by the confirmshaming rule.  Its pattern is \<open>i\s+hate\s+(money|savings|deals)\<close>,
  and the structural predicate asks for "no" directly followed by "i".  On the plain
  button above no other rule and no heuristic condition fires either, so the analysis
  reports nothing.
\<close>

theorem C3_scenario1_counterexample:
  "textContent scenario1_button = Some ''No thanks, I hate saving money''
   \<and> tagName scenario1_button = ''BUTTON''
   \<and> \<not> fst (checkRule rule_confirmshaming scenario1_button)
   \<and> analyzeElement DarkPatternDetector_new scenario1_button [] = (NotDetected, [])"
  using scenario1_confirmshaming scenario1_analysis by (simp add: scenario1_button_def)

text \<open>
  Claim C3, amended.  An element with the text "No thanks, I hate savings" (the example
  of the README) is matched by the confirmshaming rule through its pattern
  \<open>i\s+hate\s+(money|savings|deals)\<close>; with the built-in rules and rule evaluation
  enabled, its analysis yields severity medium or high and a recommendation list that
  contains "Use neutral language for decline options".
\<close>

theorem C3_readme_scenario:
  assumes "textContent e = Some ''No thanks, I hate savings''"
    and "rules (the_rules this) = rules DarkPatternRules"
    and "truthy (get_prop (config this) ''enableRuleBased'')"
  shows "fst (checkRule rule_confirmshaming e)
         \<and> (\<exists>d. fst (analyzeElement this e con) = Detected d
                \<and> match_of rule_confirmshaming \<in> set (ruleMatches d)
                \<and> (det_severity d = High \<or> det_severity d = Medium)
                \<and> neutral_language \<in> set (recommendations d))"
proof -
  have tx: "text_of e = ''No thanks, I hate savings''"
    using assms(1) by (simp add: text_of_def)
  have chk: "fst (checkRule rule_confirmshaming e)"
    using confirmshaming_pattern_matches by (simp add: checkRule_def tx Let_def)
  let ?rs = "ruleResults_of this e"
  let ?ai = "aiResult_of this e"
  have mem: "match_of rule_confirmshaming \<in> set ?rs"
    using chk confirmshaming_in_rules assms(2,3)
    by (simp add: ruleResults_of_def applyRules_eq)
  then have ne: "?rs \<noteq> []" by auto
  let ?d = "\<lparr> det_element = e, ruleMatches = ?rs, aiDetection = ?ai,
               det_confidence = calculateOverallConfidence ?rs ?ai,
               det_severity = determineSeverity ?rs ?ai,
               recommendations = generateRecommendations ?rs ?ai \<rparr>"
  have d: "fst (analyzeElement this e con) = Detected ?d"
    using ne by (simp add: analyzeElement_fst)
  have "sev_rank (severity (match_of rule_confirmshaming)) \<le> sev_rank (determineSeverity ?rs ?ai)"
    by (rule determineSeverity_upper[OF mem])
  then have sev: "determineSeverity ?rs ?ai = High \<or> determineSeverity ?rs ?ai = Medium"
    by (cases "determineSeverity ?rs ?ai") (simp_all add: match_of_confirmshaming)
  have rec: "neutral_language \<in> set (generateRecommendations ?rs ?ai)"
    by (rule generateRecommendations_confirmshaming[OF mem match_of_confirmshaming(1)])
  from chk d mem sev rec show ?thesis by simp
qed

theorem C3_readme_scenario_witness:
  "textContent readme_button = Some ''No thanks, I hate savings''
   \<and> tagName readme_button = ''BUTTON''
   \<and> fst (checkRule rule_confirmshaming readme_button)
   \<and> (\<exists>d. fst (analyzeElement DarkPatternDetector_new readme_button []) = Detected d
          \<and> match_of rule_confirmshaming \<in> set (ruleMatches d)
          \<and> (det_severity d = High \<or> det_severity d = Medium)
          \<and> neutral_language \<in> set (recommendations d))"
proof -
  have t: "textContent readme_button = Some ''No thanks, I hate savings''"
    by (simp add: readme_button_def)
  have r: "rules (the_rules DarkPatternDetector_new) = rules DarkPatternRules"
    by (simp add: DarkPatternDetector_new_def)
  have tag: "tagName readme_button = ''BUTTON''"
    by (simp add: readme_button_def scenario1_button_def)
  from t tag C3_readme_scenario[OF t r enableRuleBased_default, of "[]"] show ?thesis by simp
qed

text \<open>
  Claim C4.  For every element reported as detected: if some rule match has severity
  high, the overall severity is high, whatever the heuristic score; if any rule matched,
  the overall severity is the highest severity among the rule matches; if no rule
  matched, the heuristic verdict is positive and the severity is high for a heuristic
  confidence above 0.8, medium above 0.6, and low otherwise.
\<close>

theorem C4_severity:
  assumes "fst (analyzeElement this e con) = Detected d"
  shows "((\<exists>m \<in> set (ruleMatches d). severity m = High) \<longrightarrow> det_severity d = High)
         \<and> (ruleMatches d \<noteq> [] \<longrightarrow>
              det_severity d \<in> severity ` set (ruleMatches d)
              \<and> (\<forall>m \<in> set (ruleMatches d). sev_rank (severity m) \<le> sev_rank (det_severity d)))
         \<and> (ruleMatches d = [] \<longrightarrow>
              (\<exists>a. aiDetection d = Some a \<and> isDarkPattern a
                   \<and> det_severity d = (if ai_confidence a > 0.8 then High
                                        else if ai_confidence a > 0.6 then Medium else Low)))"
proof -
  from assms have d:
    "det_severity d = determineSeverity (ruleMatches d) (aiDetection d)"
    "ruleMatches d \<noteq> [] \<or> ai_positive (aiDetection d)"
    by (auto simp: analyzeElement_fst split: if_splits)
  have 1: "(\<exists>m \<in> set (ruleMatches d). severity m = High) \<longrightarrow> det_severity d = High"
    using determineSeverity_high[of "ruleMatches d" "aiDetection d"] by (force simp: d(1))
  have 2: "ruleMatches d \<noteq> [] \<longrightarrow>
              det_severity d \<in> severity ` set (ruleMatches d)
              \<and> (\<forall>m \<in> set (ruleMatches d). sev_rank (severity m) \<le> sev_rank (det_severity d))"
    using determineSeverity_member[of "ruleMatches d" "aiDetection d"]
      determineSeverity_upper[of _ "ruleMatches d" "aiDetection d"]
    by (simp add: d(1))
  have 3: "ruleMatches d = [] \<longrightarrow>
              (\<exists>a. aiDetection d = Some a \<and> isDarkPattern a
                   \<and> det_severity d = (if ai_confidence a > 0.8 then High
                                        else if ai_confidence a > 0.6 then Medium else Low))"
  proof
    assume h: "ruleMatches d = []"
    with d(2) have "ai_positive (aiDetection d)" by simp
    then obtain a where a: "aiDetection d = Some a" "isDarkPattern a"
      by (cases "aiDetection d") (auto simp: ai_positive_def)
    with h show "\<exists>a. aiDetection d = Some a \<and> isDarkPattern a
                   \<and> det_severity d = (if ai_confidence a > 0.8 then High
                                        else if ai_confidence a > 0.6 then Medium else Low)"
      by (simp add: d(1) determineSeverity_no_rules ai_severity_def)
  qed
  from 1 2 3 show ?thesis by blast
qed

theorem C4_severity_witness:
  "fst (analyzeElement DarkPatternDetector_new hurry_banner []) = Detected hurry_detection
   \<and> (\<exists>m \<in> set (ruleMatches hurry_detection). severity m = High)
   \<and> det_severity hurry_detection = High
   \<and> det_severity hurry_detection \<in> severity ` set (ruleMatches hurry_detection)
   \<and> fst (analyzeElement DarkPatternDetector_new faded_link []) = Detected faded_detection
   \<and> ruleMatches faded_detection = []
   \<and> (\<exists>a. aiDetection faded_detection = Some a \<and> isDarkPattern a
          \<and> det_severity faded_detection =
              (if ai_confidence a > 0.8 then High
               else if ai_confidence a > 0.6 then Medium else Low))"
  using C4_severity[OF hurry_analysis] C4_severity[OF faded_analysis]
    hurry_analysis faded_analysis hurry_detection_facts(1,4) faded_detection_facts(1)
  by simp



text \<open>
  Claim C6.  In the summary every detection is counted under exactly one severity: each
  of the three counts is the number of detections of that severity, and together they
  add up to the number of detections.  The category counts come from the rule matches
  alone: a category's count is the number of rule matches with that category, and
  a detection without rule matches leaves the category counts as they are.  The top
  issues are at most five distinct categories taken from the category counts, listed by
  descending count, and no category left out has a larger count than one listed; each
  carries the display name that the category table gives for its key.
\<close>

theorem C6_summary_counts:
  "count_high (bySeverity (generateSummary this))
     = length (filter (\<lambda>d. det_severity d = High) (detectionResults this))
   \<and> count_medium (bySeverity (generateSummary this))
     = length (filter (\<lambda>d. det_severity d = Medium) (detectionResults this))
   \<and> count_low (bySeverity (generateSummary this))
     = length (filter (\<lambda>d. det_severity d = Low) (detectionResults this))
   \<and> count_high (bySeverity (generateSummary this)) + count_medium (bySeverity (generateSummary this))
       + count_low (bySeverity (generateSummary this)) = totalDetections (generateSummary this)
   \<and> totalDetections (generateSummary this) = length (detectionResults this)
   \<and> map_of (byCategory (generateSummary this)) cat
       = (if occurrences cat (detectionResults this) = 0 then None
          else Some (occurrences cat (detectionResults this)))
   \<and> (ruleMatches d = [] \<longrightarrow>
         byCategory (generateSummary (this\<lparr> detectionResults := detectionResults this @ [d] \<rparr>))
           = byCategory (generateSummary this))
   \<and> length (topIssues (generateSummary this)) = min 5 (length (byCategory (generateSummary this)))
   \<and> set (map issue_entry (topIssues (generateSummary this))) \<subseteq> set (byCategory (generateSummary this))
   \<and> distinct (map ti_category (topIssues (generateSummary this)))
   \<and> sorted_wrt (\<ge>) (map ti_count (topIssues (generateSummary this)))
   \<and> (\<forall>entry \<in> set (byCategory (generateSummary this)).
         entry \<notin> set (map issue_entry (topIssues (generateSummary this))) \<longrightarrow>
         (\<forall>t \<in> set (topIssues (generateSummary this)). snd entry \<le> ti_count t))
   \<and> (\<forall>t \<in> set (topIssues (generateSummary this)).
         ti_categoryName t = categoryName_of (the_rules this) (ti_category t))
   \<and> (\<forall>(k, name) \<in> set (categories DarkPatternRules). categoryName_of DarkPatternRules k = name)
   \<and> rep_summary (fst (scanPage this els con)) = generateSummary (fst (snd (scanPage this els con)))
   \<and> detections (fst (scanPage this els con)) = detectionResults (fst (snd (scanPage this els con)))"
proof -
  let ?S = "generateSummary this"
  let ?ds = "detectionResults this"
  let ?top = "take 5 (sort_key (\<lambda>(cat, n). - int n) (byCategory ?S))"
  have topeq: "map issue_entry (topIssues ?S) = ?top" by (rule generateSummary_fields(4))
  note tp = top_entries_properties[OF byCategory_distinct[of this]]
  have a: "count_high (bySeverity ?S) = length (filter (\<lambda>d. det_severity d = High) ?ds)"
    "count_medium (bySeverity ?S) = length (filter (\<lambda>d. det_severity d = Medium) ?ds)"
    "count_low (bySeverity ?S) = length (filter (\<lambda>d. det_severity d = Low) ?ds)"
    by (simp_all add: generateSummary_fields foldl_increment)
  have b: "totalDetections ?S = length ?ds" by (simp add: generateSummary_fields)
  have c: "count_high (bySeverity ?S) + count_medium (bySeverity ?S) + count_low (bySeverity ?S)
             = totalDetections ?S"
    by (simp add: a b severity_partition)
  have e: "map_of (byCategory ?S) cat
       = (if occurrences cat ?ds = 0 then None else Some (occurrences cat ?ds))"
    by (simp add: generateSummary_fields map_of_foldl_count_category occurrences_def Let_def)
  have f: "ruleMatches d = [] \<longrightarrow>
         byCategory (generateSummary (this\<lparr> detectionResults := ?ds @ [d] \<rparr>)) = byCategory ?S"
    by (simp add: generateSummary_fields all_matches_def)
  have g: "length (topIssues ?S) = min 5 (length (byCategory ?S))"
    using tp(1) topeq by (metis length_map)
  have h: "set (map issue_entry (topIssues ?S)) \<subseteq> set (byCategory ?S)"
    using tp(2) by (simp only: topeq)
  have i: "distinct (map ti_category (topIssues ?S))"
    using tp(5) by (simp only: topeq[symmetric] issue_entry_maps)
  have j: "sorted_wrt (\<ge>) (map ti_count (topIssues ?S))"
    using tp(3) by (simp only: topeq[symmetric] issue_entry_maps)
  have k: "\<forall>entry \<in> set (byCategory ?S).
         entry \<notin> set (map issue_entry (topIssues ?S)) \<longrightarrow>
         (\<forall>t \<in> set (topIssues ?S). snd entry \<le> ti_count t)"
  proof (intro ballI impI)
    fix entry t
    assume en: "entry \<in> set (byCategory ?S)" "entry \<notin> set (map issue_entry (topIssues ?S))"
      and t: "t \<in> set (topIssues ?S)"
    from t have "issue_entry t \<in> set (map issue_entry (topIssues ?S))" by simp
    then have t': "(ti_category t, ti_count t) \<in> set ?top" by (simp only: topeq issue_entry_def)
    obtain c n where cn: "entry = (c, n)" by (cases entry)
    from en(1) have en1: "(c, n) \<in> set (byCategory ?S)" by (simp only: cn)
    have en2: "(c, n) \<notin> set ?top" using en(2) unfolding cn topeq by blast
    from tp(4)[OF en1 en2 t'] show "snd entry \<le> ti_count t" by (simp add: cn)
  qed
  have l: "\<forall>t \<in> set (topIssues ?S). ti_categoryName t = categoryName_of (the_rules this) (ti_category t)"
    by (auto simp: generateSummary_def Let_def split: prod.splits)
  have m: "\<forall>(k, name) \<in> set (categories DarkPatternRules). categoryName_of DarkPatternRules k = name"
    using categoryName_of_enum by auto
  have n: "rep_summary (fst (scanPage this els con)) = generateSummary (fst (snd (scanPage this els con)))"
    "detections (fst (scanPage this els con)) = detectionResults (fst (snd (scanPage this els con)))"
    by (simp_all add: scanPage_def split: prod.splits)
  from a b c e f g h i j k l m n show ?thesis by blast
qed

theorem C6_summary_counts_witness:
  "rep_summary (fst (scanPage DarkPatternDetector_new [hurry_banner, faded_link] []))
     = generateSummary scanned_detector
   \<and> count_high (bySeverity (generateSummary scanned_detector)) = 2
   \<and> count_medium (bySeverity (generateSummary scanned_detector)) = 0
   \<and> count_low (bySeverity (generateSummary scanned_detector)) = 0
   \<and> totalDetections (generateSummary scanned_detector) = 2
   \<and> map_of (byCategory (generateSummary scanned_detector)) ''URGENCY'' = Some 1
   \<and> ruleMatches faded_detection = []
   \<and> byCategory (generateSummary
         (scanned_detector\<lparr> detectionResults := detectionResults scanned_detector @ [faded_detection] \<rparr>))
       = byCategory (generateSummary scanned_detector)
   \<and> length (topIssues (generateSummary scanned_detector))
       = min 5 (length (byCategory (generateSummary scanned_detector)))
   \<and> topIssues (generateSummary scanned_detector)
       = [\<lparr> ti_category = ''URGENCY'', ti_count = 1, ti_categoryName = ''Urgency & Scarcity'' \<rparr>]"
  using C6_summary_counts[of scanned_detector "''URGENCY''" faded_detection]
    example_scan(2) scanned_occurrences scanned_topIssues
  by (simp add: scanned_detector_results hurry_detection_facts faded_detection_facts)

text \<open>
  Claim C7.  When the structural predicate of a rule throws on an element (it runs only
  if none of the rule's text patterns matched), that rule is a non-match and a warning
  with the rule's id is logged; the rules before and after it are evaluated as usual.
  The result of the per-element analysis is the one obtained without that rule, and a
  scan over elements on which the predicate throws yields the report obtained without
  that rule.
\<close>

theorem C7_predicate_errors_are_caught:
  assumes "rule_checkElement r = Some check" "check e = Inl err"
    and "\<not> list_ex (\<lambda>pattern. test pattern (text_of e)) (rule_patterns r)"
  shows "checkRule r e = (False, [(rule_id r, err)])
         \<and> applyRules_loop (rs1 @ r # rs2) e (ms, con) =
             applyRules_loop rs2 e
               (fst (applyRules_loop rs1 e (ms, con)),
                snd (applyRules_loop rs1 e (ms, con)) @ [(rule_id r, err)])
         \<and> (rules (the_rules this) = rs1 @ r # rs2 \<longrightarrow>
              fst (analyzeElement this e con)
                = fst (analyzeElement (with_rules (rs1 @ rs2) this) e con)
              \<and> (truthy (get_prop (config this) ''enableRuleBased'') \<longrightarrow>
                    (rule_id r, err) \<in> set (snd (analyzeElement this e con)))
              \<and> ((\<forall>x \<in> set els. (\<exists>err'. check x = Inl err')
                      \<and> \<not> list_ex (\<lambda>pattern. test pattern (text_of x)) (rule_patterns r)) \<longrightarrow>
                    fst (scanPage this els con)
                      = fst (scanPage (with_rules (rs1 @ rs2) this) els con)
                    \<and> totalElements (fst (scanPage this els con)) = length els))"
  using checkRule_throws[OF assms] fst_analyzeElement_without_throwing_rule[OF _ assms]
    scanPage_without_throwing_rule[OF _ assms(1), of this rs1 rs2 els con]
  by (auto simp: applyRules_loop_eq analyzeElement_snd scanPage_report)

theorem C7_predicate_errors_are_caught_witness:
  "checkRule broken_rule hurry_banner = (False, [(''custom-pattern'', Error ''TypeError'')])
   \<and> fst (analyzeElement extended_detector hurry_banner [])
       = fst (analyzeElement DarkPatternDetector_new hurry_banner [])
   \<and> (''custom-pattern'', Error ''TypeError'') \<in> set (snd (analyzeElement extended_detector hurry_banner []))
   \<and> fst (scanPage extended_detector [hurry_banner, faded_link] [])
       = fst (scanPage DarkPatternDetector_new [hurry_banner, faded_link] [])
   \<and> totalElements (fst (scanPage extended_detector [hurry_banner, faded_link] [])) = 2"
proof -
  have p: "\<not> list_ex (\<lambda>pattern. test pattern (text_of hurry_banner)) (rule_patterns broken_rule)"
    by (simp add: broken_rule_facts)
  have c: "(\<lambda>e. Inl (Error ''TypeError'') :: error + bool) hurry_banner = Inl (Error ''TypeError'')"
    by simp
  have t: "truthy (get_prop (config extended_detector) ''enableRuleBased'')"
    by (simp add: extended_detector_facts enableRuleBased_default)
  have all: "\<forall>x \<in> set [hurry_banner, faded_link].
               (\<exists>err'. (\<lambda>e. Inl (Error ''TypeError'') :: error + bool) x = Inl err')
               \<and> \<not> list_ex (\<lambda>pattern. test pattern (text_of x)) (rule_patterns broken_rule)"
    by (simp add: broken_rule_facts)
  from C7_predicate_errors_are_caught[OF broken_rule_facts(1) c p,
      of "rules DarkPatternRules" "[]" "[]" "[]" extended_detector "[hurry_banner, faded_link]"]
    t all
  show ?thesis
    by (simp add: extended_detector_facts broken_rule_facts scanPage_totalElements)
qed



text \<open>
  Claim C9.  Every score of the condition table is at least 0.6.  Hence whenever some
  condition triggers, the aggregate confidence is at least 0.6 and, under the default
  threshold, the verdict is positive; the confidence is never strictly between 0 and 0.6.
\<close>

theorem C9_scores_at_least_threshold:
  "(\<forall>c \<in> set conditionTable. cond_score c \<ge> 0.6)
   \<and> (triggered f \<noteq> [] \<longrightarrow> p_confidence (makePredictions f) \<ge> 0.6)
   \<and> (triggered (extractFeatures e) \<noteq> [] \<longrightarrow> isDarkPattern (detect AIDetector_new e))
   \<and> \<not> (0 < p_confidence (makePredictions f) \<and> p_confidence (makePredictions f) < 0.6)
   \<and> \<not> (0 < ai_confidence (detect this e) \<and> ai_confidence (detect this e) < 0.6)"
  using makePredictions_confidence_cases[of f] makePredictions_confidence_cases[of "extractFeatures e"]
    conditionTable_scores
  by (auto simp: detect_fields AIDetector_new_def)

theorem C9_scores_at_least_threshold_witness:
  "triggered (extractFeatures faded_link) \<noteq> []
   \<and> isDarkPattern (detect AIDetector_new faded_link)
   \<and> p_confidence (makePredictions (extractFeatures faded_link)) \<ge> 0.6"
proof -
  have "map cond_score (triggered (extractFeatures faded_link)) = [0.85]"
    by (simp only: faded_features faded_triggered_scores)
  then have "triggered (extractFeatures faded_link) \<noteq> []" by auto
  with C9_scores_at_least_threshold[of "extractFeatures faded_link" faded_link AIDetector_new]
  show ?thesis by simp
qed

text \<open>
  Claim C10.  \<open>setConfig\<close> merges its argument into the configuration: a key absent from
  the argument keeps its value, a key present takes the argument's value, and the
  rules, the stored results and the heuristic detector are unchanged.
\<close>

theorem C10_setConfig_frame:
  "(\<forall>k. k \<notin> dom newConfig \<longrightarrow> config (setConfig newConfig this) k = config this k)
   \<and> (\<forall>k \<in> dom newConfig. config (setConfig newConfig this) k = newConfig k)
   \<and> the_rules (setConfig newConfig this) = the_rules this
   \<and> detectionResults (setConfig newConfig this) = detectionResults this
   \<and> the_aiDetector (setConfig newConfig this) = the_aiDetector this"
  by (auto simp: setConfig_def map_add_def split: option.splits)

theorem C10_setConfig_frame_witness:
  "''enableRuleBased'' \<notin> dom stricter_config
   \<and> config (setConfig stricter_config DarkPatternDetector_new) ''enableRuleBased''
       = config DarkPatternDetector_new ''enableRuleBased''
   \<and> ''minConfidence'' \<in> dom stricter_config
   \<and> config (setConfig stricter_config DarkPatternDetector_new) ''minConfidence''
       = Some (JNum 0.7)
   \<and> the_rules (setConfig stricter_config DarkPatternDetector_new) = the_rules DarkPatternDetector_new
   \<and> detectionResults (setConfig stricter_config DarkPatternDetector_new)
       = detectionResults DarkPatternDetector_new"
proof -
  have a: "''enableRuleBased'' \<notin> dom stricter_config" by (simp add: stricter_config_def)
  have b: "''minConfidence'' \<in> dom stricter_config" by (simp add: stricter_config_def)
  have c: "stricter_config ''minConfidence'' = Some (JNum 0.7)" by (simp add: stricter_config_def)
  from C10_setConfig_frame[of stricter_config DarkPatternDetector_new] a b c show ?thesis
    by auto
qed

end
